theory Spec2Isabelle
  imports Main "HOL-Library.Word"
begin

section \<open>JavaScript strings\<close>

text \<open>
  A JavaScript string is a sequence of 16-bit code units. Literals of the source are
  written as HOL strings and converted by \<open>js\<close>; every literal of the program is ASCII.
\<close>

type_synonym code_unit = "16 word"
type_synonym jsstring = "code_unit list"

definition js :: "string \<Rightarrow> jsstring" where
  "js s = map of_char s"

text \<open>\<open>String.prototype.split\<close> with a one-unit separator, and \<open>Array.prototype.join\<close>.\<close>

fun split_on :: "code_unit \<Rightarrow> jsstring \<Rightarrow> jsstring list" where
  "split_on sep [] = [[]]"
| "split_on sep (c # cs) =
     (if c = sep then [] # split_on sep cs
      else (case split_on sep cs of [] \<Rightarrow> [[c]] | p # ps \<Rightarrow> (c # p) # ps))"

fun join :: "jsstring \<Rightarrow> jsstring list \<Rightarrow> jsstring" where
  "join sep [] = []"
| "join sep [p] = p"
| "join sep (p # q # ps) = p @ sep @ join sep (q # ps)"

definition startsWith :: "jsstring \<Rightarrow> jsstring \<Rightarrow> bool" where
  "startsWith s p \<longleftrightarrow> take (length p) s = p"

text \<open>
  White space and line terminators of ECMAScript: the class \<open>\s\<close> of regular
  expressions and the units that \<open>String.prototype.trim\<close> strips.
\<close>

definition is_white_space :: "code_unit \<Rightarrow> bool" where
  "is_white_space c \<longleftrightarrow>
     (0x09 \<le> c \<and> c \<le> 0x0D) \<or> c = 0x20 \<or> c = 0xA0 \<or> c = 0x1680 \<or>
     (0x2000 \<le> c \<and> c \<le> 0x200A) \<or> c = 0x2028 \<or> c = 0x2029 \<or> c = 0x202F \<or>
     c = 0x205F \<or> c = 0x3000 \<or> c = 0xFEFF"

definition trim :: "jsstring \<Rightarrow> jsstring" where
  "trim s = rev (dropWhile is_white_space (rev (dropWhile is_white_space s)))"

section \<open>The regular expressions of the classifier\<close>

text \<open>
  The four patterns of \<open>utils/sql.js\<close> use literal characters, \<open>\b\<close>, \<open>^\<close>, \<open>\s*\<close>,
  alternation and sequencing, under the flag \<open>i\<close> and without the flags \<open>g\<close>, \<open>y\<close>,
  \<open>m\<close> and \<open>u\<close>.

  \<open>is_word_char\<close> is the class \<open>\w\<close> that \<open>\b\<close> consults: ASCII letters, digits and
  the underscore.

  \<open>canonicalize\<close> is the case folding of a pattern with flag \<open>i\<close> and without \<open>u\<close>: the
  upper-case form of the unit, except that a unit outside ASCII is never folded to an ASCII
  unit. It is only ever compared with the folding of an ASCII pattern character, so units
  outside ASCII are left as they are.
\<close>

definition is_word_char :: "code_unit \<Rightarrow> bool" where
  "is_word_char c \<longleftrightarrow>
     (0x30 \<le> c \<and> c \<le> 0x39) \<or> (0x41 \<le> c \<and> c \<le> 0x5A) \<or> c = 0x5F \<or>
     (0x61 \<le> c \<and> c \<le> 0x7A)"

definition canonicalize :: "code_unit \<Rightarrow> code_unit" where
  "canonicalize c = (if 0x61 \<le> c \<and> c \<le> 0x7A then c - 0x20 else c)"

definition char_matches :: "char \<Rightarrow> code_unit \<Rightarrow> bool" where
  "char_matches p c \<longleftrightarrow> canonicalize (of_char p) = canonicalize c"

text \<open>A literal of the pattern matches a prefix of the remaining input.\<close>

fun literal_at :: "string \<Rightarrow> jsstring \<Rightarrow> bool" where
  "literal_at [] cs = True"
| "literal_at (p # ps) [] = False"
| "literal_at (p # ps) (c # cs) = (char_matches p c \<and> literal_at ps cs)"

text \<open>
  \<open>\b\<close> holds at index \<open>i\<close> when exactly one of the units at \<open>i - 1\<close> and \<open>i\<close> is a
  word character; an index before the start or at the end of the input has none.
\<close>

definition is_word_at :: "jsstring \<Rightarrow> nat \<Rightarrow> bool" where
  "is_word_at s e \<longleftrightarrow> e < length s \<and> is_word_char (s ! e)"

definition word_boundary :: "jsstring \<Rightarrow> nat \<Rightarrow> bool" where
  "word_boundary s i \<longleftrightarrow> (0 < i \<and> is_word_at s (i - 1)) \<noteq> is_word_at s i"

datatype regex =
    Lit string
  | WordB
  | Bol
  | Spaces
  | Alt regex regex
  | Seq regex regex

text \<open>
  \<open>ends r s i\<close> lists the indices at which a match of \<open>r\<close> that starts at index \<open>i\<close>
  of \<open>s\<close> can end, in the order in which the backtracking matcher tries them (\<open>\s*\<close> is
  greedy); the head of the list is the end of the match that the matcher returns.
\<close>

fun ends :: "regex \<Rightarrow> jsstring \<Rightarrow> nat \<Rightarrow> nat list" where
  "ends (Lit p) s i = (if literal_at p (drop i s) then [i + length p] else [])"
| "ends WordB s i = (if word_boundary s i then [i] else [])"
| "ends Bol s i = (if i = 0 then [i] else [])"
| "ends Spaces s i =
     map (\<lambda>k. i + k) (rev [0..<Suc (length (takeWhile is_white_space (drop i s)))])"
| "ends (Alt a b) s i = ends a s i @ ends b s i"
| "ends (Seq a b) s i = concat (map (ends b s) (ends a s i))"

text \<open>
  A RegExp object: its pattern, its flags \<open>g\<close> and \<open>y\<close>, and its mutable property
  \<open>lastIndex\<close>. \<open>regexp_test\<close> is \<open>RegExp.prototype.test\<close>, that is
  RegExpBuiltinExec, returning the truth value with the object as the call leaves it.
  With \<open>g\<close> or \<open>y\<close> the search starts at \<open>lastIndex\<close>, which is set to the end of
  the match, or to 0 when there is none; with \<open>y\<close> only that one start index is
  tried. Without both flags the search starts at 0 and \<open>lastIndex\<close> is neither used
  nor written (ECMAScript 2018 and later). \<open>first_match\<close> tries the start indices
  from \<open>i\<close> to the length of the input in turn.
\<close>

record regexp =
  re_source :: regex
  re_global :: bool
  re_sticky :: bool
  lastIndex :: nat

definition first_match :: "regex \<Rightarrow> jsstring \<Rightarrow> nat \<Rightarrow> nat option" where
  "first_match r s i =
     (case filter (\<lambda>j. ends r s j \<noteq> []) [i..<Suc (length s)] of
        [] \<Rightarrow> None
      | j # _ \<Rightarrow> Some (hd (ends r s j)))"

definition regexp_test :: "regexp \<Rightarrow> jsstring \<Rightarrow> bool \<times> regexp" where
  "regexp_test R s =
     (let tracked = (re_global R \<or> re_sticky R);
          start = (if tracked then lastIndex R else 0);
          found =
            (if length s < start then None
             else if re_sticky R
             then (case ends (re_source R) s start of [] \<Rightarrow> None | e # _ \<Rightarrow> Some e)
             else first_match (re_source R) s start)
      in case found of
           None \<Rightarrow> (False, if tracked then R\<lparr>lastIndex := 0\<rparr> else R)
         | Some e \<Rightarrow> (True, if tracked then R\<lparr>lastIndex := e\<rparr> else R))"

text \<open>
  A regular expression literal with the flag \<open>i\<close> alone; each evaluation of the
  literal makes a new object, with \<open>lastIndex\<close> 0.
\<close>

definition regexp_literal_i :: "regex \<Rightarrow> regexp" where
  "regexp_literal_i r = \<lparr>re_source = r, re_global = False, re_sticky = False, lastIndex = 0\<rparr>"

text \<open>\<open>test r s\<close>: the pattern has a match in \<open>s\<close> from some start index.\<close>

definition test :: "regex \<Rightarrow> jsstring \<Rightarrow> bool" where
  "test r s = list_ex (\<lambda>i. ends r s i \<noteq> []) [0..<Suc (length s)]"

fun one_of :: "string \<Rightarrow> string list \<Rightarrow> regex" where
  "one_of k [] = Lit k"
| "one_of k (k' # ks) = Alt (Lit k) (one_of k' ks)"

section \<open>utils/sql.js: the statement classifier\<close>

text \<open>\<^verbatim>\<open>/\b(update|delete|drop|alter|truncate|grant|revoke|attach|detach|pragma)\b/i.test(sql)\<close>\<close>

definition forbidden_re :: regexp where
  "forbidden_re =
     regexp_literal_i
       (Seq WordB (Seq (one_of ''update'' [''delete'', ''drop'', ''alter'', ''truncate'',
          ''grant'', ''revoke'', ''attach'', ''detach'', ''pragma'']) WordB))"

definition isForbidden :: "jsstring \<Rightarrow> bool" where
  "isForbidden sql = fst (regexp_test forbidden_re sql)"

text \<open>\<^verbatim>\<open>/^\s*select\b/i.test(sql)\<close>\<close>

definition select_re :: regexp where
  "select_re = regexp_literal_i (Seq Bol (Seq Spaces (Seq (Lit ''select'') WordB)))"

definition isSelect :: "jsstring \<Rightarrow> bool" where
  "isSelect sql = fst (regexp_test select_re sql)"

text \<open>\<^verbatim>\<open>/^\s*insert\b/i.test(sql)\<close>\<close>

definition insert_re :: regexp where
  "insert_re = regexp_literal_i (Seq Bol (Seq Spaces (Seq (Lit ''insert'') WordB)))"

definition isInsert :: "jsstring \<Rightarrow> bool" where
  "isInsert sql = fst (regexp_test insert_re sql)"

text \<open>\<^verbatim>\<open>/\bpatient\b/i.test(sql)\<close>\<close>

definition patient_re :: regexp where
  "patient_re = regexp_literal_i (Seq WordB (Seq (Lit ''patient'') WordB))"

definition touchesPatient :: "jsstring \<Rightarrow> bool" where
  "touchesPatient sql = fst (regexp_test patient_re sql)"

section \<open>utils/http.js: responses\<close>

datatype sql_value = SqlNull | SqlInteger int | SqlText jsstring

type_synonym row = "(jsstring \<times> sql_value) list"

text \<open>
  The objects handed to \<open>sendJSON\<close>: \<open>{error}\<close>, \<open>{rows}\<close>,
  \<open>{ok: true, affectedRows, insertId}\<close> and \<open>{ok: true, message, inserted}\<close>.
  \<open>insertId\<close> is \<open>None\<close> for \<open>null\<close>.
\<close>

datatype reply =
    ErrorReply jsstring
  | RowsReply "row list"
  | InsertReply nat "int option"
  | SeedReply jsstring nat

datatype body = Json reply | Text jsstring | Empty

record response =
  status :: nat
  headers :: "(string \<times> string) list"
  body :: body

definition cors :: "(string \<times> string) list \<Rightarrow> (string \<times> string) list" where
  "cors extra =
     [(''Access-Control-Allow-Origin'', ''*''),
      (''Access-Control-Allow-Methods'', ''GET, POST, OPTIONS''),
      (''Access-Control-Allow-Headers'', ''Content-Type'')] @ extra"

definition sendJSON :: "nat \<Rightarrow> reply \<Rightarrow> response" where
  "sendJSON st obj =
     \<lparr>status = st, headers = cors [(''Content-Type'', ''application/json; charset=utf-8'')],
      body = Json obj\<rparr>"

definition sendText :: "nat \<Rightarrow> jsstring \<Rightarrow> response" where
  "sendText st txt =
     \<lparr>status = st, headers = cors [(''Content-Type'', ''text/plain; charset=utf-8'')],
      body = Text txt\<rparr>"

section \<open>decodeURIComponent\<close>

text \<open>
  The built-in \<open>decodeURIComponent\<close>, with \<open>None\<close> for a \<open>URIError\<close>. Every \<open>%\<close>
  must be followed by two hexadecimal digits and stands for one octet; an octet below
  \<open>0x80\<close> is that code unit; an octet from \<open>0xC0\<close> on leads a sequence of two, three
  or four escaped octets, which must be the well-formed UTF-8 encoding of a code point
  (no overlong form, no surrogate, at most \<open>0x10FFFF\<close>); the code point is appended in
  UTF-16. The scan is in two passes here: escapes first, then octet sequences.
\<close>

definition hex_digit :: "code_unit \<Rightarrow> nat option" where
  "hex_digit c =
     (if 0x30 \<le> c \<and> c \<le> 0x39 then Some (unat c - 0x30)
      else if 0x41 \<le> c \<and> c \<le> 0x46 then Some (unat c - 0x41 + 10)
      else if 0x61 \<le> c \<and> c \<le> 0x66 then Some (unat c - 0x61 + 10)
      else None)"

fun escapes :: "jsstring \<Rightarrow> (code_unit + nat) list option" where
  "escapes [] = Some []"
| "escapes (c # cs) =
     (if c = 0x25 then
        (case cs of
           h # l # rest \<Rightarrow>
             (case (hex_digit h, hex_digit l) of
                (Some a, Some b) \<Rightarrow> map_option ((#) (Inr (16 * a + b))) (escapes rest)
              | _ \<Rightarrow> None)
         | _ \<Rightarrow> None)
      else map_option ((#) (Inl c)) (escapes cs))"

definition continuation :: "nat \<Rightarrow> bool" where
  "continuation b \<longleftrightarrow> 0x80 \<le> b \<and> b < 0xC0"

definition utf16 :: "nat \<Rightarrow> jsstring" where
  "utf16 cp =
     (if cp < 0x10000 then [of_nat cp]
      else [of_nat (0xD800 + (cp - 0x10000) div 0x400), of_nat (0xDC00 + (cp - 0x10000) mod 0x400)])"

fun utf8_units :: "(code_unit + nat) list \<Rightarrow> jsstring option" where
  "utf8_units [] = Some []"
| "utf8_units (Inl c # ts) = map_option ((#) c) (utf8_units ts)"
| "utf8_units (Inr b # ts) =
     (if b < 0x80 then map_option ((#) (of_nat b)) (utf8_units ts)
      else if 0xC0 \<le> b \<and> b < 0xE0 then
        (case ts of
           Inr b1 # ts' \<Rightarrow>
             (let cp = (b - 0xC0) * 0x40 + (b1 - 0x80)
              in if continuation b1 \<and> 0x80 \<le> cp
                 then map_option ((@) (utf16 cp)) (utf8_units ts') else None)
         | _ \<Rightarrow> None)
      else if 0xE0 \<le> b \<and> b < 0xF0 then
        (case ts of
           Inr b1 # Inr b2 # ts' \<Rightarrow>
             (let cp = (b - 0xE0) * 0x1000 + (b1 - 0x80) * 0x40 + (b2 - 0x80)
              in if continuation b1 \<and> continuation b2 \<and> 0x800 \<le> cp \<and>
                    \<not> (0xD800 \<le> cp \<and> cp \<le> 0xDFFF)
                 then map_option ((@) (utf16 cp)) (utf8_units ts') else None)
         | _ \<Rightarrow> None)
      else if 0xF0 \<le> b \<and> b < 0xF8 then
        (case ts of
           Inr b1 # Inr b2 # Inr b3 # ts' \<Rightarrow>
             (let cp = (b - 0xF0) * 0x40000 + (b1 - 0x80) * 0x1000 + (b2 - 0x80) * 0x40 +
                       (b3 - 0x80)
              in if continuation b1 \<and> continuation b2 \<and> continuation b3 \<and>
                    0x10000 \<le> cp \<and> cp \<le> 0x10FFFF
                 then map_option ((@) (utf16 cp)) (utf8_units ts') else None)
         | _ \<Rightarrow> None)
      else None)"

definition decodeURIComponent :: "jsstring \<Rightarrow> jsstring option" where
  "decodeURIComponent s = (case escapes s of None \<Rightarrow> None | Some ts \<Rightarrow> utf8_units ts)"

section \<open>The database handle\<close>

text \<open>
  The storage engine is reached through \<open>db.run(sql, params, callback)\<close> and
  \<open>db.all(sql, callback)\<close> of the sqlite3 package. Both are parameters of the model:
  each takes the state of the store and returns the new state with either the message
  of the error passed to the callback (\<open>Inl\<close>) or the result. On success \<open>run\<close> calls
  back with \<open>this.changes\<close> and \<open>this.lastID\<close>, the engine's count of changed rows and
  its last inserted row id (0 when it has none to report).
\<close>

record run_report =
  changes :: nat
  lastID :: int

record 's database =
  db_run :: "jsstring \<Rightarrow> jsstring list \<Rightarrow> 's \<Rightarrow> (jsstring + run_report) \<times> 's"
  db_all :: "jsstring \<Rightarrow> 's \<Rightarrow> (jsstring + row list) \<times> 's"

section \<open>class SQLiteServer: store operations\<close>

definition newline :: code_unit where
  "newline = 0x0A"

definition indented :: "nat \<Rightarrow> string \<Rightarrow> jsstring" where
  "indented n l = replicate n 0x20 @ js l @ [newline]"

text \<open>
  The template literal of \<open>bootstrap\<close> (indented by 10) and of \<open>ensureTableExists\<close>
  (indented by 8), from the opening to the closing backquote.
\<close>

definition create_table_sql :: "nat \<Rightarrow> jsstring" where
  "create_table_sql n =
     [newline] @
     indented n ''CREATE TABLE IF NOT EXISTS patient ('' @
     indented (n + 2) ''patientid   INTEGER PRIMARY KEY AUTOINCREMENT,'' @
     indented (n + 2) ''name        VARCHAR(100) NOT NULL,'' @
     indented (n + 2) ''dateOfBirth DATETIME'' @
     indented n '');'' @
     replicate (n - 2) 0x20"

definition bootstrap :: "'s database \<Rightarrow> 's \<Rightarrow> (jsstring + unit) \<times> 's" where
  "bootstrap db s =
     (case db_run db (create_table_sql 10) [] s of
        (Inl e, s') \<Rightarrow> (Inl e, s')
      | (Inr _, s') \<Rightarrow> (Inr (), s'))"

definition seed_rows :: "jsstring list list" where
  "seed_rows =
     [[js ''Sara Brown'', js ''1901-01-01 00:00:00''],
      [js ''John Smith'', js ''1941-01-01 00:00:00''],
      [js ''Jack Ma'', js ''1961-01-30 00:00:00''],
      [js ''Elon Musk'', js ''1999-01-01 00:00:00'']]"

definition seed_sql :: jsstring where
  "seed_sql =
     js ''INSERT INTO patient (name, dateOfBirth) VALUES '' @
     join (js '', '') (map (\<lambda>_. js ''(?, ?)'') seed_rows) @ js '';''"

text \<open>\<open>seed\<close> resolves with \<open>{inserted: this.changes || rows.length}\<close>.\<close>

definition seed :: "'s database \<Rightarrow> 's \<Rightarrow> (jsstring + nat) \<times> 's" where
  "seed db s =
     (case db_run db seed_sql (concat seed_rows) s of
        (Inl e, s') \<Rightarrow> (Inl e, s')
      | (Inr r, s') \<Rightarrow> (Inr (if changes r \<noteq> 0 then changes r else length seed_rows), s'))"

definition ensureTableExists :: "'s database \<Rightarrow> 's \<Rightarrow> (jsstring + unit) \<times> 's" where
  "ensureTableExists db s =
     (case db_run db (create_table_sql 8) [] s of
        (Inl e, s') \<Rightarrow> (Inl e, s')
      | (Inr _, s') \<Rightarrow> (Inr (), s'))"

definition runSelect :: "'s database \<Rightarrow> jsstring \<Rightarrow> 's \<Rightarrow> (jsstring + row list) \<times> 's" where
  "runSelect db sql s =
     (case ensureTableExists db s of
        (Inl e, s') \<Rightarrow> (Inl e, s')
      | (Inr _, s') \<Rightarrow> db_all db sql s')"

text \<open>
  \<open>runInsert\<close> resolves with
  \<open>{affectedRows: this.changes || 0, insertId: this.lastID || null}\<close>.
\<close>

record insert_result =
  affectedRows :: nat
  insertId :: "int option"

definition runInsert :: "'s database \<Rightarrow> jsstring \<Rightarrow> 's \<Rightarrow> (jsstring + insert_result) \<times> 's" where
  "runInsert db sql s =
     (case ensureTableExists db s of
        (Inl e, s') \<Rightarrow> (Inl e, s')
      | (Inr _, s') \<Rightarrow>
          (case db_run db sql [] s' of
             (Inl e, s'') \<Rightarrow> (Inl e, s'')
           | (Inr r, s'') \<Rightarrow>
               (Inr \<lparr>affectedRows = (if changes r \<noteq> 0 then changes r else 0),
                     insertId = (if lastID r \<noteq> 0 then Some (lastID r) else None)\<rparr>, s'')))"

text \<open>
  The single-file variant of the server (without the class) runs the statement
  without \<open>ensureTableExists\<close>; its handlers for the two SQL routes and its router
  are those of the class.
\<close>

definition runSelect_v1 :: "'s database \<Rightarrow> jsstring \<Rightarrow> 's \<Rightarrow> (jsstring + row list) \<times> 's" where
  "runSelect_v1 db sql s = db_all db sql s"

definition runInsert_v1 ::
  "'s database \<Rightarrow> jsstring \<Rightarrow> 's \<Rightarrow> (jsstring + insert_result) \<times> 's" where
  "runInsert_v1 db sql s =
     (case db_run db sql [] s of
        (Inl e, s') \<Rightarrow> (Inl e, s')
      | (Inr r, s') \<Rightarrow>
          (Inr \<lparr>affectedRows = (if changes r \<noteq> 0 then changes r else 0),
                insertId = (if lastID r \<noteq> 0 then Some (lastID r) else None)\<rparr>, s'))"

section \<open>class SQLiteServer: handlers\<close>

text \<open>
  A handler takes the store operation it awaits (\<open>this.runSelect\<close>, \<open>this.runInsert\<close>,
  \<open>this.seed\<close>) as its first argument, and returns the response it sends with the state
  of the store after the request.
\<close>

definition handleOptions :: response where
  "handleOptions = \<lparr>status = 204, headers = cors [(''Access-Control-Max-Age'', ''600'')],
                     body = Empty\<rparr>"

definition handleGetSql ::
  "(jsstring \<Rightarrow> 's \<Rightarrow> (jsstring + row list) \<times> 's) \<Rightarrow> jsstring \<Rightarrow> 's \<Rightarrow> response \<times> 's" where
  "handleGetSql run_select pathname s =
     (let parts = filter (\<lambda>p. p \<noteq> []) (split_on 0x2F pathname)
      in if length parts < 4 then (sendJSON 400 (ErrorReply (js ''Missing SQL in path.'')), s)
         else
           (case decodeURIComponent (join (js ''/'') (drop 3 parts)) of
              None \<Rightarrow> (sendJSON 400 (ErrorReply (js ''Badly encoded SQL.'')), s)
            | Some sql \<Rightarrow>
                if isForbidden sql
                then (sendJSON 403 (ErrorReply (js ''Forbidden statement.'')), s)
                else if \<not> isSelect sql
                then (sendJSON 400 (ErrorReply (js ''GET only allows SELECT.'')), s)
                else if \<not> touchesPatient sql
                then (sendJSON 400 (ErrorReply (js ''Query must reference 'patient'.'')), s)
                else
                  (case run_select sql s of
                     (Inr rows, s') \<Rightarrow> (sendJSON 200 (RowsReply rows), s')
                   | (Inl e, s') \<Rightarrow> (sendJSON 400 (ErrorReply e), s'))))"

text \<open>
  What \<open>handlePostSql\<close> gets from the request body: \<open>readBody\<close> rejects with an error
  (its message is given); or \<open>JSON.parse(raw || "{}")\<close> throws; or it returns \<open>null\<close>,
  and reading \<open>payload.query\<close> throws outside every \<open>try\<close>, so that no response is sent;
  or it returns another value, and \<open>String(payload.query || "")\<close> is the given text.
\<close>

datatype post_body =
    BodyUnreadable jsstring
  | BodyInvalidJson
  | BodyNull
  | BodyQuery jsstring

definition handlePostSql ::
  "(jsstring \<Rightarrow> 's \<Rightarrow> (jsstring + insert_result) \<times> 's) \<Rightarrow> post_body \<Rightarrow> 's
     \<Rightarrow> response option \<times> 's" where
  "handlePostSql run_insert b s =
     (case b of
        BodyUnreadable m \<Rightarrow>
          (Some (sendJSON 413 (ErrorReply (if m \<noteq> [] then m else js ''Body too large''))), s)
      | BodyInvalidJson \<Rightarrow> (Some (sendJSON 400 (ErrorReply (js ''Invalid JSON body.''))), s)
      | BodyNull \<Rightarrow> (None, s)
      | BodyQuery sql \<Rightarrow>
          if trim sql = []
          then (Some (sendJSON 400 (ErrorReply (js ''Missing 'query' field.''))), s)
          else if isForbidden sql
          then (Some (sendJSON 403 (ErrorReply (js ''Forbidden statement.''))), s)
          else if \<not> isInsert sql
          then (Some (sendJSON 400 (ErrorReply (js ''POST only allows INSERT.''))), s)
          else if \<not> touchesPatient sql
          then (Some (sendJSON 400 (ErrorReply (js ''Query must reference 'patient'.''))), s)
          else
            (case run_insert sql s of
               (Inr r, s') \<Rightarrow> (Some (sendJSON 200 (InsertReply (affectedRows r) (insertId r))), s')
             | (Inl e, s') \<Rightarrow> (Some (sendJSON 400 (ErrorReply e)), s')))"

definition handleSeed :: "('s \<Rightarrow> (jsstring + nat) \<times> 's) \<Rightarrow> 's \<Rightarrow> response \<times> 's" where
  "handleSeed seed_op s =
     (case seed_op s of
        (Inr n, s') \<Rightarrow> (sendJSON 200 (SeedReply (js ''Database seeded successfully.'') n), s')
      | (Inl e, s') \<Rightarrow> (sendJSON 400 (ErrorReply e), s'))"

section \<open>class SQLiteServer: the request router\<close>

text \<open>
  What the first statement of the router, \<open>const { pathname } = url.parse(req.url)\<close>,
  yields: \<open>url.parse\<close> throws (a \<open>URIError\<close> for a target whose auth part cannot be
  decoded); or \<open>pathname\<close> is \<open>null\<close> (a target without a path under a scheme that
  takes no slashes, as in \<open>GET foo://h\<close>); or it is a string.

  A request as the router reads it: \<open>req.method\<close> (here \<open>http_method\<close>), that
  outcome, and the body as \<open>handlePostSql\<close> gets it.
\<close>

datatype url_pathname = ParseThrows | PathnameNull | Pathname jsstring

record request =
  http_method :: jsstring
  pathname :: url_pathname
  post_body :: post_body

definition banner :: jsstring where
  "banner = js ''Lab5 SQLite API ready.'' @ [newline] @
            js ''Try: /api/v1/sql/select%20*%20from%20patient''"

text \<open>
  The router sends no response (\<open>None\<close>) when it throws: when \<open>url.parse\<close> throws,
  and when \<open>pathname\<close> is \<open>null\<close> and the method is \<open>GET\<close>, where
  \<open>pathname.startsWith\<close> is evaluated and throws a \<open>TypeError\<close>. For another method
  \<open>&&\<close> skips that call, and \<open>null\<close> equals none of the paths compared with
  \<open>===\<close>.
\<close>

definition handleRequest :: "'s database \<Rightarrow> request \<Rightarrow> 's \<Rightarrow> response option \<times> 's" where
  "handleRequest db req s =
     (case pathname req of
        ParseThrows \<Rightarrow> (None, s)
      | PathnameNull \<Rightarrow>
          if http_method req = js ''OPTIONS'' then (Some handleOptions, s)
          else if http_method req = js ''GET'' then (None, s)
          else (Some (sendJSON 404 (ErrorReply (js ''Not found''))), s)
      | Pathname p \<Rightarrow>
          if http_method req = js ''OPTIONS'' then (Some handleOptions, s)
          else if http_method req = js ''GET'' \<and> startsWith p (js ''/api/v1/sql/'')
          then (case handleGetSql (runSelect db) p s of (r, s') \<Rightarrow> (Some r, s'))
          else if http_method req = js ''POST'' \<and> p = js ''/api/v1/sql''
          then handlePostSql (runInsert db) (post_body req) s
          else if http_method req = js ''POST'' \<and> p = js ''/api/v1/seed''
          then (case handleSeed (seed db) s of (r, s') \<Rightarrow> (Some r, s'))
          else if http_method req = js ''GET'' \<and> p = js ''/''
          then (Some (sendText 200 banner), s)
          else (Some (sendJSON 404 (ErrorReply (js ''Not found''))), s))"

section \<open>The storage engine\<close>

text \<open>
  Modelled from the spec: the storage engine (SQLite, behind the sqlite3 package) is not
  among the sources. The store holds tables by name, each with its rows in key order;
  \<open>sequence\<close> is the largest key the table \<open>patient\<close> has held, from which the next
  generated key is counted; \<open>conn_changes\<close> and \<open>conn_last_rowid\<close> are what the
  connection reports as \<open>this.changes\<close> and \<open>this.lastID\<close>.
\<close>

record sqlite =
  tables :: "(jsstring \<times> row list) list"
  sequence :: int
  conn_changes :: nat
  conn_last_rowid :: int

text \<open>
  Modelled from the spec: "one table with columns: auto-generated integer primary key;
  required short text field; optional date-time field. Created if absent on first store
  access; never dropped or migrated by this system." \<open>CREATE TABLE IF NOT EXISTS\<close> adds
  the empty table when the schema has none of that name, and has no effect and raises no
  error when it has one.
\<close>

definition create_if_absent :: "sqlite \<Rightarrow> sqlite" where
  "create_if_absent d =
     (case map_of (tables d) (js ''patient'') of
        None \<Rightarrow> d\<lparr>tables := tables d @ [(js ''patient'', [])]\<rparr>
      | Some _ \<Rightarrow> d)"

text \<open>
  Modelled from the spec: the bound values of an insertion, two for each tuple, and the
  row that the store keeps for a tuple under a key, with its columns as the store reports
  them.
\<close>

fun pairs :: "'a list \<Rightarrow> ('a \<times> 'a) list" where
  "pairs (a # b # r) = (a, b) # pairs r"
| "pairs _ = []"

definition patient_row :: "int \<Rightarrow> jsstring \<times> jsstring \<Rightarrow> row" where
  "patient_row k v =
     [(js ''patientid'', SqlInteger k), (js ''name'', SqlText (fst v)),
      (js ''dateOfBirth'', SqlText (snd v))]"

text \<open>
  Modelled from the spec: a bulk insert of (name, dateOfBirth) tuples appends one row for
  each tuple, with consecutive generated keys, and reports the number of rows and the key
  of the last one ("the reported generated key corresponds to the last-inserted row").
  An insertion of no row assigns no key and changes no row; \<open>this.lastID\<close> is the
  connection's \<open>last_insert_rowid\<close>, which such a statement leaves as it is, so that
  the connection still reports the row id of the last insertion before it. Without the
  table the statement fails.
\<close>

definition insert_patients ::
  "(jsstring \<times> jsstring) list \<Rightarrow> sqlite \<Rightarrow> (jsstring + run_report) \<times> sqlite" where
  "insert_patients vs d =
     (case map_of (tables d) (js ''patient'') of
        None \<Rightarrow> (Inl (js ''SQLITE_ERROR: no such table: patient''), d)
      | Some _ \<Rightarrow>
          (let new = map (\<lambda>(k, v). patient_row (sequence d + 1 + int k) v) (enumerate 0 vs);
               lastkey = (if vs = [] then conn_last_rowid d else sequence d + int (length vs))
           in (Inr \<lparr>changes = length vs, lastID = lastkey\<rparr>,
               d\<lparr>tables := map (\<lambda>(n, rs). if n = js ''patient'' then (n, rs @ new) else (n, rs))
                                (tables d),
                 sequence := sequence d + int (length vs), conn_changes := length vs,
                 conn_last_rowid := lastkey\<rparr>)))"

text \<open>
  Modelled from the spec: the read of all rows returns the rows of the table in the
  order of the store, and fails without the table.
\<close>

definition select_patients :: "sqlite \<Rightarrow> (jsstring + row list) \<times> sqlite" where
  "select_patients d =
     (case map_of (tables d) (js ''patient'') of
        None \<Rightarrow> (Inl (js ''SQLITE_ERROR: no such table: patient''), d)
      | Some rs \<Rightarrow> (Inr rs, d))"

text \<open>
  Modelled from the spec: the words of a statement, separated by white space, and the
  statements that the engine is modelled on. A statement is a creation of the table when
  its first words are \<open>CREATE TABLE IF NOT EXISTS patient\<close>. The parametrised insertion
  is the fixed text of the seed operation with eight bound values. The literal insertion
  is that of Scenario B. The empty insertion is an \<open>INSERT ... SELECT\<close> whose \<open>SELECT\<close>
  yields no row. The read of all rows is that of Scenario A and D.
\<close>

fun split_when :: "(code_unit \<Rightarrow> bool) \<Rightarrow> jsstring \<Rightarrow> jsstring list" where
  "split_when sep [] = [[]]"
| "split_when sep (c # cs) =
     (if sep c then [] # split_when sep cs
      else (case split_when sep cs of [] \<Rightarrow> [[c]] | p # ps \<Rightarrow> (c # p) # ps))"

definition sql_words :: "jsstring \<Rightarrow> jsstring list" where
  "sql_words sql = filter (\<lambda>w. w \<noteq> []) (split_when is_white_space sql)"

definition is_create_table :: "jsstring \<Rightarrow> bool" where
  "is_create_table sql \<longleftrightarrow>
     take 6 (sql_words sql) =
       [js ''CREATE'', js ''TABLE'', js ''IF'', js ''NOT'', js ''EXISTS'', js ''patient'']"

definition insert_four_sql :: jsstring where
  "insert_four_sql =
     js ''INSERT INTO patient (name, dateOfBirth) VALUES (?, ?), (?, ?), (?, ?), (?, ?);''"

definition insert_ada_sql :: jsstring where
  "insert_ada_sql =
     js ''insert into patient (name, dateOfBirth) values ('Ada Lovelace','1815-12-10')''"

definition insert_nothing_sql :: jsstring where
  "insert_nothing_sql = js ''insert into patient (name) select name from patient where 0''"

text \<open>
  Modelled from the spec: the engine on the statements above. Every other statement is
  left to \<open>other\<close>, about which nothing is assumed.
\<close>

definition sqlite_engine :: "sqlite database \<Rightarrow> sqlite database" where
  "sqlite_engine other =
     \<lparr>db_run = (\<lambda>sql params d.
         if is_create_table sql
         then (let d' = create_if_absent d
               in (Inr \<lparr>changes = conn_changes d', lastID = conn_last_rowid d'\<rparr>, d'))
         else if sql = insert_four_sql \<and> length params = 8
         then insert_patients (pairs params) d
         else if sql = insert_ada_sql \<and> params = []
         then insert_patients [(js ''Ada Lovelace'', js ''1815-12-10'')] d
         else if sql = insert_nothing_sql \<and> params = [] then insert_patients [] d
         else db_run other sql params d),
      db_all = (\<lambda>sql d.
         if sql = js ''select * from patient'' then select_patients d
         else db_all other sql d)\<rparr>"

text \<open>
  For examples: an engine that fails on every statement, to stand for the part of the
  engine left open.
\<close>

definition no_engine :: "sqlite database" where
  "no_engine =
     \<lparr>db_run = (\<lambda>sql params d. (Inl (js ''SQLITE_ERROR''), d)),
      db_all = (\<lambda>sql d. (Inl (js ''SQLITE_ERROR''), d))\<rparr>"

text \<open>For examples: a store without tables.\<close>

definition empty_store :: sqlite where
  "empty_store = \<lparr>tables = [], sequence = 0, conn_changes = 0, conn_last_rowid = 0\<rparr>"


section \<open>The contract of the specification\<close>

text \<open>
  The specification's \<open>classify(text, declaredIntent)\<close>: the rules in order, first match
  wins, over the predicates of the classifier.
\<close>

datatype intent = Read | Write

datatype classification = Forbidden | WrongIntent | OutOfScope | Approved

fun shape_ok :: "intent \<Rightarrow> jsstring \<Rightarrow> bool" where
  "shape_ok Read sql = isSelect sql"
| "shape_ok Write sql = isInsert sql"

definition classify :: "intent \<Rightarrow> jsstring \<Rightarrow> classification" where
  "classify i sql =
     (if isForbidden sql then Forbidden
      else if \<not> shape_ok i sql then WrongIntent
      else if \<not> touchesPatient sql then OutOfScope
      else Approved)"

text \<open>The denylist of the specification, in lower case.\<close>

definition denylist :: "string list" where
  "denylist = [''update'', ''delete'', ''drop'', ''alter'', ''truncate'', ''grant'', ''revoke'',
               ''attach'', ''detach'', ''pragma'']"

text \<open>
  \<open>spells kw w\<close>: the text \<open>w\<close> is the lower-case keyword \<open>kw\<close> with each letter in
  either case. \<open>contains_whole_word kw s\<close>: the keyword occurs in \<open>s\<close> in any case, and
  the occurrence is not touched on either side by a letter, a digit or an underscore.
\<close>

definition spells :: "string \<Rightarrow> jsstring \<Rightarrow> bool" where
  "spells kw w \<longleftrightarrow> list_all2 (\<lambda>k c. c = of_char k \<or> c = of_char k - 0x20) kw w"

definition contains_whole_word :: "string \<Rightarrow> jsstring \<Rightarrow> bool" where
  "contains_whole_word kw s \<longleftrightarrow>
     (\<exists>pre w post. s = pre @ w @ post \<and> spells kw w \<and>
        (pre = [] \<or> \<not> is_word_char (last pre)) \<and> (post = [] \<or> \<not> is_word_char (hd post)))"

definition lower_letter :: "char \<Rightarrow> bool" where
  "lower_letter k \<longleftrightarrow> 0x61 \<le> (of_char k :: code_unit) \<and> (of_char k :: code_unit) \<le> 0x7A"

text \<open>A text that is empty or holds white space only.\<close>

definition blank :: "jsstring \<Rightarrow> bool" where
  "blank s \<longleftrightarrow> list_all is_white_space s"

text \<open>
  The statement text of a request on the read channel: the path after its third segment,
  percent-decoded; \<open>None\<close> when the path has no such segment or is badly encoded.
\<close>

definition read_statement :: "jsstring \<Rightarrow> jsstring option" where
  "read_statement path =
     (let parts = filter (\<lambda>p. p \<noteq> []) (split_on 0x2F path)
      in if length parts < 4 then None else decodeURIComponent (join (js ''/'') (drop 3 parts)))"

text \<open>The segments of a path: its parts between slashes that are not empty.\<close>

definition path_segments :: "jsstring \<Rightarrow> jsstring list" where
  "path_segments path = filter (\<lambda>p. p \<noteq> []) (split_on 0x2F path)"

section \<open>Case folding, word boundaries and the patterns\<close>

lemma canon_upper: "0x61 \<le> x \<Longrightarrow> x \<le> 0x7A \<Longrightarrow> canonicalize (x - 0x20) = x - 0x20"
  unfolding canonicalize_def by (simp add: word_le_nat_alt unat_sub) 

lemma canon_range:
  assumes "0x61 \<le> x" "x \<le> 0x7A" "canonicalize x = canonicalize c"
  shows "c = x \<or> c = x - 0x20"
  using assms unfolding canonicalize_def by (auto split: if_splits)

lemma lower_letter_matches: "lower_letter k \<Longrightarrow> char_matches k c \<longleftrightarrow> c = of_char k \<or> c = of_char k - 0x20"
  unfolding lower_letter_def char_matches_def 
  using canon_upper canon_range by (metis canonicalize_def) 

lemma letter_is_word: "0x61 \<le> x \<Longrightarrow> x \<le> 0x7A \<Longrightarrow> is_word_char x \<and> is_word_char (x - 0x20)"
  unfolding is_word_char_def by unat_arith

lemma letter_not_space: "0x61 \<le> x \<Longrightarrow> x \<le> 0x7A \<Longrightarrow> \<not> is_white_space x \<and> \<not> is_white_space (x - 0x20)"
  unfolding is_white_space_def by unat_arith

lemma deny_lower: "kw \<in> set denylist \<Longrightarrow> kw \<noteq> [] \<and> list_all lower_letter kw"
  unfolding denylist_def lower_letter_def by auto
lemma spells_literal_at: "list_all lower_letter kw \<Longrightarrow> spells kw w \<Longrightarrow> literal_at kw (w @ post)"
  unfolding spells_def
proof (induction kw arbitrary: w)
  case Nil
  then show ?case by simp
next
  case (Cons k kw)
  then obtain c w' where w: "w = c # w'" and c: "c = of_char k \<or> c = of_char k - 0x20"
    and rest: "list_all2 (\<lambda>k c. c = of_char k \<or> c = of_char k - 0x20) kw w'"
    by (auto simp: list_all2_Cons1)
  from Cons.prems(1) have "lower_letter k" "list_all lower_letter kw" by simp_all
  with c rest Cons.IH show ?case by (simp add: w lower_letter_matches)
qed

lemma spells_length: "spells kw w \<Longrightarrow> length w = length kw"
  unfolding spells_def by (simp add: list_all2_lengthD)

lemma spells_word_chars: "list_all lower_letter kw \<Longrightarrow> spells kw w \<Longrightarrow> list_all is_word_char w"
  unfolding spells_def
proof (induction kw arbitrary: w)
  case Nil
  then show ?case by simp
next
  case (Cons k kw)
  then obtain c w' where w: "w = c # w'" and c: "c = of_char k \<or> c = of_char k - 0x20"
    and rest: "list_all2 (\<lambda>k c. c = of_char k \<or> c = of_char k - 0x20) kw w'"
    by (auto simp: list_all2_Cons1)
  from Cons.prems(1) have k: "lower_letter k" and "list_all lower_letter kw" by simp_all
  with rest Cons.IH have "list_all is_word_char w'" by simp
  moreover from k c have "is_word_char c"
    using letter_is_word unfolding lower_letter_def by blast
  ultimately show ?case by (simp add: w)
qed

lemma boundary_before:
  assumes "w \<noteq> []" "is_word_char (hd w)" "pre = [] \<or> \<not> is_word_char (last pre)"
  shows "word_boundary (pre @ w @ post) (length pre)"
proof -
  have a: "is_word_at (pre @ w @ post) (length pre)"
    using assms(1,2) by (cases w) (simp_all add: is_word_at_def nth_append)
  have b: "\<not> (0 < length pre \<and> is_word_at (pre @ w @ post) (length pre - 1))"
    using assms(3) by (auto simp: is_word_at_def nth_append last_conv_nth)
  show ?thesis unfolding word_boundary_def using a b by blast
qed

lemma boundary_after:
  assumes "w \<noteq> []" "is_word_char (last w)" "post = [] \<or> \<not> is_word_char (hd post)"
  shows "word_boundary (pre @ w @ post) (length pre + length w)"
proof -
  have a: "\<not> is_word_at (pre @ w @ post) (length pre + length w)"
    using assms(3) by (cases post) (simp_all add: is_word_at_def nth_append)
  from assms(1) have w: "w = butlast w @ [last w]" by simp
  from assms(1) have lw: "0 < length w" by simp
  have "length pre + length w - 1 = length (pre @ butlast w)"
    using assms(1) by (simp add: length_greater_0_conv [THEN iffD2] Suc_leI)
  moreover have "pre @ w @ post = (pre @ butlast w) @ last w # post"
    using w by (metis append.assoc append_Cons append_Nil)
  ultimately have "(pre @ w @ post) ! (length pre + length w - 1) = last w"
    by (metis nth_append_length)
  then have b: "0 < length pre + length w \<and> is_word_at (pre @ w @ post) (length pre + length w - 1)"
    using assms(2) lw by (simp add: is_word_at_def less_le_trans [OF diff_less])
  show ?thesis unfolding word_boundary_def using a b by blast
qed

lemma nonempty_iff: "xs \<noteq> [] \<longleftrightarrow> (\<exists>j. j \<in> set xs)"
  by (cases xs) auto

lemma ends_one_of_iff:
  "j \<in> set (ends (one_of k ks) s i) \<longleftrightarrow>
     (\<exists>kw\<in>set (k # ks). literal_at kw (drop i s) \<and> j = i + length kw)"
  by (induction k ks rule: one_of.induct) auto

lemma ends_Spaces_iff:
  "j \<in> set (ends Spaces s i) \<longleftrightarrow>
     i \<le> j \<and> j \<le> i + length (takeWhile is_white_space (drop i s))"
  by (auto simp: image_iff)

lemma ends_Seq_iff:
  "j \<in> set (ends (Seq a b) s i) \<longleftrightarrow> (\<exists>m\<in>set (ends a s i). j \<in> set (ends b s m))"
  by auto

lemma ends_Lit_iff:
  "j \<in> set (ends (Lit p) s i) \<longleftrightarrow> literal_at p (drop i s) \<and> j = i + length p"
  by auto

lemma ends_WordB_iff: "j \<in> set (ends WordB s i) \<longleftrightarrow> word_boundary s i \<and> j = i"
  by auto

lemma ends_Bol_iff: "j \<in> set (ends Bol s i) \<longleftrightarrow> i = 0 \<and> j = 0"
  by auto

lemma test_iff: "test r s \<longleftrightarrow> (\<exists>i j. i \<le> length s \<and> j \<in> set (ends r s i))"
proof -
  have "test r s \<longleftrightarrow> (\<exists>i\<in>{0..<Suc (length s)}. ends r s i \<noteq> [])"
    by (simp only: test_def list_ex_iff set_upt)
  also have "\<dots> \<longleftrightarrow> (\<exists>i. i \<le> length s \<and> ends r s i \<noteq> [])"
    unfolding Bex_def atLeastLessThan_iff less_Suc_eq_le by simp
  also have "\<dots> \<longleftrightarrow> (\<exists>i j. i \<le> length s \<and> j \<in> set (ends r s i))"
    unfolding nonempty_iff by blast
  finally show ?thesis .
qed

lemma first_match_test: "first_match r s 0 \<noteq> None \<longleftrightarrow> test r s"
proof -
  have "first_match r s 0 \<noteq> None \<longleftrightarrow> filter (\<lambda>j. ends r s j \<noteq> []) [0..<Suc (length s)] \<noteq> []"
    unfolding first_match_def by (simp split: list.splits)
  also have "\<dots> \<longleftrightarrow> test r s"
    unfolding test_def list_ex_iff filter_empty_conv by blast
  finally show ?thesis .
qed

lemma regexp_test_literal:
  "regexp_test (regexp_literal_i r\<lparr>lastIndex := n\<rparr>) s =
     (test r s, regexp_literal_i r\<lparr>lastIndex := n\<rparr>)"
proof (cases "first_match r s 0")
  case None
  with first_match_test [of r s] have "\<not> test r s" by simp
  with None show ?thesis unfolding regexp_test_def regexp_literal_i_def by simp
next
  case (Some e)
  with first_match_test [of r s] have "test r s" by simp
  with Some show ?thesis unfolding regexp_test_def regexp_literal_i_def by simp
qed

lemma regexp_test_fresh: "fst (regexp_test (regexp_literal_i r) s) = test r s"
  using regexp_test_literal [where r = r and n = 0 and s = s] unfolding regexp_literal_i_def
  by simp

lemma isForbidden_test:
  "isForbidden sql =
     test (Seq WordB (Seq (one_of ''update'' [''delete'', ''drop'', ''alter'', ''truncate'',
       ''grant'', ''revoke'', ''attach'', ''detach'', ''pragma'']) WordB)) sql"
  unfolding isForbidden_def forbidden_re_def by (rule regexp_test_fresh)

lemma isSelect_test: "isSelect sql = test (Seq Bol (Seq Spaces (Seq (Lit ''select'') WordB))) sql"
  unfolding isSelect_def select_re_def by (rule regexp_test_fresh)

lemma isInsert_test: "isInsert sql = test (Seq Bol (Seq Spaces (Seq (Lit ''insert'') WordB))) sql"
  unfolding isInsert_def insert_re_def by (rule regexp_test_fresh)

lemma touchesPatient_test: "touchesPatient sql = test (Seq WordB (Seq (Lit ''patient'') WordB)) sql"
  unfolding touchesPatient_def patient_re_def by (rule regexp_test_fresh)

lemma ends_Seq_ex:
  "j \<in> set (ends (Seq a b) s i) \<longleftrightarrow> (\<exists>m. m \<in> set (ends a s i) \<and> j \<in> set (ends b s m))"
  by auto

lemma isForbidden_iff:
  "isForbidden sql \<longleftrightarrow>
     (\<exists>i \<le> length sql. \<exists>kw \<in> set denylist.
        word_boundary sql i \<and> literal_at kw (drop i sql) \<and> word_boundary sql (i + length kw))"
  unfolding isForbidden_test test_iff ends_Seq_ex ends_WordB_iff ends_one_of_iff denylist_def
  by blast

lemma touchesPatient_iff:
  "touchesPatient sql \<longleftrightarrow>
     (\<exists>i \<le> length sql.
        word_boundary sql i \<and> literal_at ''patient'' (drop i sql) \<and>
        word_boundary sql (i + length ''patient''))"
  unfolding touchesPatient_test test_iff ends_Seq_ex ends_WordB_iff ends_Lit_iff
  by blast

lemma leading_keyword_iff:
  "test (Seq Bol (Seq Spaces (Seq (Lit kw) WordB))) sql \<longleftrightarrow>
     (\<exists>j \<le> length (takeWhile is_white_space sql).
        literal_at kw (drop j sql) \<and> word_boundary sql (j + length kw))"
  unfolding test_iff ends_Seq_ex ends_WordB_iff ends_Lit_iff ends_Bol_iff ends_Spaces_iff
  by (simp add: ex_simps [symmetric] del: ex_simps)

lemma whole_word_forbidden:
  assumes kw: "kw \<in> set denylist" and cw: "contains_whole_word kw sql"
  shows "isForbidden sql"
proof -
  from cw obtain pre w post where sql: "sql = pre @ w @ post" and sp: "spells kw w"
    and l: "pre = [] \<or> \<not> is_word_char (last pre)"
    and r: "post = [] \<or> \<not> is_word_char (hd post)"
    unfolding contains_whole_word_def by blast
  from kw have ne: "kw \<noteq> []" and low: "list_all lower_letter kw"
    using deny_lower by blast+
  from sp ne have wne: "w \<noteq> []" using spells_length by fastforce
  from low sp have "list_all is_word_char w" by (rule spells_word_chars)
  with wne have hw: "is_word_char (hd w)" and lw: "is_word_char (last w)"
    by (simp_all add: list_all_iff)
  have b1: "word_boundary sql (length pre)"
    unfolding sql using wne hw l by (rule boundary_before)
  have b2: "word_boundary sql (length pre + length kw)"
    unfolding sql using boundary_after [OF wne lw r] spells_length [OF sp] by simp
  have m: "literal_at kw (drop (length pre) sql)"
    unfolding sql using spells_literal_at [OF low sp] by simp
  have "length pre \<le> length sql" unfolding sql by simp
  with kw b1 b2 m show ?thesis unfolding isForbidden_iff by blast
qed

lemma literal_at_head:
  "literal_at (p # ps) (drop i s) \<Longrightarrow> i < length s \<and> char_matches p (s ! i)"
proof -
  assume a: "literal_at (p # ps) (drop i s)"
  then obtain c cs where d: "drop i s = c # cs" by (cases "drop i s") simp_all
  then have "i < length s" by (metis drop_all list.distinct(1) not_le)
  moreover from this d have "c = s ! i" by (metis Cons_nth_drop_Suc list.inject)
  ultimately show ?thesis using a d by simp
qed

lemma match_not_space:
  assumes "lower_letter p" "char_matches p c"
  shows "\<not> is_white_space c"
proof -
  from assms have "c = of_char p \<or> c = of_char p - 0x20" by (simp add: lower_letter_matches)
  moreover from assms(1)
  have "\<not> is_white_space (of_char p) \<and> \<not> is_white_space (of_char p - 0x20)"
    unfolding lower_letter_def by (intro letter_not_space) simp_all
  ultimately show ?thesis by blast
qed

lemma blank_nth: "blank s \<Longrightarrow> i < length s \<Longrightarrow> is_white_space (s ! i)"
  unfolding blank_def by (simp add: list_all_length)

lemma literal_not_blank:
  "lower_letter p \<Longrightarrow> literal_at (p # ps) (drop i s) \<Longrightarrow> \<not> blank s"
  using literal_at_head match_not_space blank_nth by blast

lemma blank_not_forbidden: "blank s \<Longrightarrow> \<not> isForbidden s"
proof
  assume b: "blank s" and "isForbidden s"
  then obtain i kw where kw: "kw \<in> set denylist" and m: "literal_at kw (drop i s)"
    unfolding isForbidden_iff by blast
  from deny_lower [OF kw] have ne: "kw \<noteq> []" and low: "list_all lower_letter kw"
    by simp_all
  from ne obtain p ps where c: "kw = p # ps" by (cases kw) simp_all
  with low have "lower_letter p" by simp
  with m b c show False using literal_not_blank by blast
qed

lemma blank_no_leading_keyword:
  "lower_letter p \<Longrightarrow> blank s \<Longrightarrow> \<not> test (Seq Bol (Seq Spaces (Seq (Lit (p # ps)) WordB))) s"
  unfolding leading_keyword_iff using literal_not_blank by blast

lemma blank_not_select: "blank s \<Longrightarrow> \<not> isSelect s"
  unfolding isSelect_test by (rule blank_no_leading_keyword) (simp_all add: lower_letter_def)

lemma blank_not_insert: "blank s \<Longrightarrow> \<not> isInsert s"
  unfolding isInsert_test by (rule blank_no_leading_keyword) (simp_all add: lower_letter_def)

lemma blank_trim: "blank s \<longleftrightarrow> trim s = []"
proof -
  have "trim s = [] \<longleftrightarrow> (\<forall>x\<in>set (dropWhile is_white_space s). is_white_space x)"
    unfolding trim_def by (simp add: dropWhile_eq_Nil_conv)
  also have "\<dots> \<longleftrightarrow> dropWhile is_white_space s = []"
    by (metis hd_dropWhile list.set_sel(1) empty_iff list.set(1))
  also have "\<dots> \<longleftrightarrow> blank s"
    unfolding blank_def by (simp add: dropWhile_eq_Nil_conv list_all_iff)
  finally show ?thesis by simp
qed

lemma handleGetSql_statement:
  assumes "read_statement p = Some sql"
  shows "handleGetSql rs p s =
     (if isForbidden sql then (sendJSON 403 (ErrorReply (js ''Forbidden statement.'')), s)
      else if \<not> isSelect sql then (sendJSON 400 (ErrorReply (js ''GET only allows SELECT.'')), s)
      else if \<not> touchesPatient sql
      then (sendJSON 400 (ErrorReply (js ''Query must reference 'patient'.'')), s)
      else (case rs sql s of
              (Inr rows, s') \<Rightarrow> (sendJSON 200 (RowsReply rows), s')
            | (Inl e, s') \<Rightarrow> (sendJSON 400 (ErrorReply e), s')))"
  using assms unfolding handleGetSql_def read_statement_def Let_def
  by (simp split: if_splits)

lemma handleGetSql_no_statement:
  assumes "read_statement p = None"
  shows "handleGetSql rs p s = (sendJSON 400 (ErrorReply (js ''Missing SQL in path.'')), s) \<or>
         handleGetSql rs p s = (sendJSON 400 (ErrorReply (js ''Badly encoded SQL.'')), s)"
  using assms unfolding handleGetSql_def read_statement_def Let_def
  by (simp split: if_splits)

lemma handlePostSql_query:
  "handlePostSql ri (BodyQuery sql) s =
     (if blank sql then (Some (sendJSON 400 (ErrorReply (js ''Missing 'query' field.''))), s)
      else if isForbidden sql then (Some (sendJSON 403 (ErrorReply (js ''Forbidden statement.''))), s)
      else if \<not> isInsert sql then (Some (sendJSON 400 (ErrorReply (js ''POST only allows INSERT.''))), s)
      else if \<not> touchesPatient sql
      then (Some (sendJSON 400 (ErrorReply (js ''Query must reference 'patient'.''))), s)
      else (case ri sql s of
              (Inr r, s') \<Rightarrow> (Some (sendJSON 200 (InsertReply (affectedRows r) (insertId r))), s')
            | (Inl e, s') \<Rightarrow> (Some (sendJSON 400 (ErrorReply e)), s')))"
  unfolding handlePostSql_def blank_trim by simp

section \<open>The claims\<close>

text \<open>
  Claim C1. A text that contains one of the ten denylist keywords as a whole word, in
  any case, is forbidden: \<open>isForbidden\<close> holds, the classification is \<open>Forbidden\<close>
  for the read and for the write intent alike, whether or not the text names the table
  \<open>patient\<close>, and both handlers answer 403 "Forbidden statement.".
\<close>

theorem denylist_word_is_forbidden:
  assumes "kw \<in> set denylist" and "contains_whole_word kw sql"
  shows "isForbidden sql \<and> classify i sql = Forbidden \<and>
         (read_statement p = Some sql \<longrightarrow>
            handleGetSql rs p s = (sendJSON 403 (ErrorReply (js ''Forbidden statement.'')), s)) \<and>
         handlePostSql ri (BodyQuery sql) s =
           (Some (sendJSON 403 (ErrorReply (js ''Forbidden statement.''))), s)"
proof -
  from assms have f: "isForbidden sql" by (rule whole_word_forbidden)
  then have nb: "\<not> blank sql" using blank_not_forbidden by blast
  from f have "classify i sql = Forbidden" by (simp add: classify_def)
  moreover from f have "read_statement p = Some sql \<longrightarrow>
      handleGetSql rs p s = (sendJSON 403 (ErrorReply (js ''Forbidden statement.'')), s)"
    by (simp add: handleGetSql_statement)
  moreover from f nb have "handlePostSql ri (BodyQuery sql) s =
      (Some (sendJSON 403 (ErrorReply (js ''Forbidden statement.''))), s)"
    by (simp add: handlePostSql_query)
  ultimately show ?thesis using f by blast
qed

theorem denylist_word_is_forbidden_witness:
  "classify Read (js ''select * from patient; DROP table patient'') = Forbidden \<and>
   classify Write (js ''insert into other values ('x'); Pragma y'') = Forbidden \<and>
   handleGetSql (runSelect no_engine) (js ''/api/v1/sql/select%20*%20from%20patient;%20DROP%20table%20patient'')
       empty_store =
     (sendJSON 403 (ErrorReply (js ''Forbidden statement.'')), empty_store) \<and>
   handlePostSql (runInsert no_engine) (BodyQuery (js ''insert into other values ('x'); Pragma y''))
       empty_store =
     (Some (sendJSON 403 (ErrorReply (js ''Forbidden statement.''))), empty_store)"
proof -
  have k1: "''drop'' \<in> set denylist" and k2: "''pragma'' \<in> set denylist"
    by (simp_all add: denylist_def)
  have w1: "contains_whole_word ''drop'' (js ''select * from patient; DROP table patient'')"
    unfolding contains_whole_word_def
    by (rule exI [of _ "js ''select * from patient; ''"], rule exI [of _ "js ''DROP''"],
        rule exI [of _ "js '' table patient''"]) code_simp
  have w2: "contains_whole_word ''pragma'' (js ''insert into other values ('x'); Pragma y'')"
    unfolding contains_whole_word_def
    by (rule exI [of _ "js ''insert into other values ('x'); ''"], rule exI [of _ "js ''Pragma''"],
        rule exI [of _ "js '' y''"]) code_simp
  have r: "read_statement (js ''/api/v1/sql/select%20*%20from%20patient;%20DROP%20table%20patient'')
             = Some (js ''select * from patient; DROP table patient'')"
    by code_simp
  from denylist_word_is_forbidden [OF k1 w1, of Read _ "runSelect no_engine" empty_store] r
       denylist_word_is_forbidden [OF k2 w2, of Write _ _ empty_store "runInsert no_engine"]
  show ?thesis by blast
qed

lemma classify_Approved_iff:
  "classify i sql = Approved \<longleftrightarrow> \<not> isForbidden sql \<and> shape_ok i sql \<and> touchesPatient sql"
  by (simp add: classify_def)


lemma handleGetSql_unread:
  assumes "read_statement p = None"
  shows "handleGetSql rs p s = handleGetSql rs' p s \<and> snd (handleGetSql rs p s) = s"
proof -
  define parts where "parts = filter (\<lambda>q. q \<noteq> []) (split_on 0x2F p)"
  show ?thesis
  proof (cases "length parts < 4")
    case True
    then show ?thesis by (simp add: handleGetSql_def parts_def)
  next
    case False
    with assms have "decodeURIComponent (join (js ''/'') (drop 3 parts)) = None"
      by (simp add: read_statement_def parts_def)
    with False show ?thesis by (simp add: handleGetSql_def parts_def)
  qed
qed

lemma handleGetSql_rejected:
  assumes r: "read_statement p = Some sql" and c: "classify Read sql \<noteq> Approved"
  shows "handleGetSql rs p s = handleGetSql rs' p s \<and> snd (handleGetSql rs p s) = s"
proof -
  from c have "isForbidden sql \<or> \<not> isSelect sql \<or> \<not> touchesPatient sql"
    by (simp add: classify_Approved_iff)
  then show ?thesis
    unfolding handleGetSql_statement [OF r] by auto
qed

lemma handlePostSql_rejected:
  assumes c: "classify Write q \<noteq> Approved"
  shows "handlePostSql ri (BodyQuery q) s = handlePostSql ri' (BodyQuery q) s \<and>
         snd (handlePostSql ri (BodyQuery q) s) = s"
proof -
  from c have "isForbidden q \<or> \<not> isInsert q \<or> \<not> touchesPatient q"
    by (simp add: classify_Approved_iff)
  then show ?thesis
    unfolding handlePostSql_query by auto
qed

lemma get_only_approved:
  assumes h: "\<forall>t. classify Read t = Approved \<longrightarrow> rs t = rs' t"
  shows "handleGetSql rs p s = handleGetSql rs' p s"
proof (cases "read_statement p")
  case None
  show ?thesis by (rule handleGetSql_unread [OF None, THEN conjunct1])
next
  case (Some sql')
  show ?thesis
  proof (cases "classify Read sql' = Approved")
    case True
    have e: "rs sql' = rs' sql'" by (rule h [rule_format, OF True])
    show ?thesis unfolding handleGetSql_statement [OF Some] e by (rule refl)
  next
    case False
    show ?thesis by (rule handleGetSql_rejected [OF Some False, THEN conjunct1])
  qed
qed

lemma post_only_approved:
  assumes h: "\<forall>t. classify Write t = Approved \<longrightarrow> ri t = ri' t"
  shows "handlePostSql ri b s = handlePostSql ri' b s"
proof (cases b)
  case (BodyQuery q')
  show ?thesis
  proof (cases "classify Write q' = Approved")
    case True
    have e: "ri q' = ri' q'" by (rule h [rule_format, OF True])
    show ?thesis unfolding BodyQuery handlePostSql_query e by (rule refl)
  next
    case False
    show ?thesis unfolding BodyQuery by (rule handlePostSql_rejected [OF False, THEN conjunct1])
  qed
qed (simp_all add: handlePostSql_def)

lemma adapters_pass_on:
  assumes "ensureTableExists db s = (Inr (), s1)"
  shows "runSelect db t s = db_all db t s1 \<and> runInsert db t s = runInsert_v1 db t s1"
  using assms by (simp add: runSelect_def runInsert_def runInsert_v1_def)

text \<open>
  Claim C2. A request whose statement text is not classified \<open>Approved\<close> reaches no
  store operation: whatever operation the handler is given, the response is the same and
  the store is returned as it was. Conversely the handlers consult the store operation
  at approved texts only: two operations that agree on every approved text cannot be told
  apart through a handler. The adapters do not validate: once the table is ensured,
  \<open>runSelect\<close> and \<open>runInsert\<close> hand any text to the database as it is (in the
  single-file variant of the server, at once).
\<close>

theorem rejected_statement_never_reaches_store:
  "(read_statement p = Some sql \<and> classify Read sql \<noteq> Approved \<longrightarrow>
      handleGetSql rs p s = handleGetSql rs' p s \<and> snd (handleGetSql rs p s) = s) \<and>
   (classify Write q \<noteq> Approved \<longrightarrow>
      handlePostSql ri (BodyQuery q) s = handlePostSql ri' (BodyQuery q) s \<and>
      snd (handlePostSql ri (BodyQuery q) s) = s) \<and>
   ((\<forall>t. classify Read t = Approved \<longrightarrow> rs t = rs' t) \<longrightarrow>
      handleGetSql rs p s = handleGetSql rs' p s) \<and>
   ((\<forall>t. classify Write t = Approved \<longrightarrow> ri t = ri' t) \<longrightarrow>
      handlePostSql ri b s = handlePostSql ri' b s) \<and>
   (ensureTableExists db s = (Inr (), s1) \<longrightarrow>
      runSelect db t s = db_all db t s1 \<and> runInsert db t s = runInsert_v1 db t s1) \<and>
   runSelect_v1 db t s = db_all db t s"
proof -
  have g1: "read_statement p = Some sql \<and> classify Read sql \<noteq> Approved \<longrightarrow>
      handleGetSql rs p s = handleGetSql rs' p s \<and> snd (handleGetSql rs p s) = s"
  proof (rule impI, elim conjE)
    assume a: "read_statement p = Some sql" and b: "classify Read sql \<noteq> Approved"
    show "handleGetSql rs p s = handleGetSql rs' p s \<and> snd (handleGetSql rs p s) = s"
      by (rule handleGetSql_rejected [OF a b])
  qed
  have p1: "classify Write q \<noteq> Approved \<longrightarrow>
      handlePostSql ri (BodyQuery q) s = handlePostSql ri' (BodyQuery q) s \<and>
      snd (handlePostSql ri (BodyQuery q) s) = s"
    by (rule impI) (rule handlePostSql_rejected)
  have g3: "(\<forall>t. classify Read t = Approved \<longrightarrow> rs t = rs' t) \<longrightarrow>
      handleGetSql rs p s = handleGetSql rs' p s"
    by (rule impI) (rule get_only_approved)
  have p3: "(\<forall>t. classify Write t = Approved \<longrightarrow> ri t = ri' t) \<longrightarrow>
      handlePostSql ri b s = handlePostSql ri' b s"
    by (rule impI) (rule post_only_approved)
  have a5: "ensureTableExists db s = (Inr (), s1) \<longrightarrow>
      runSelect db t s = db_all db t s1 \<and> runInsert db t s = runInsert_v1 db t s1"
    by (rule impI) (rule adapters_pass_on)
  have v1: "runSelect_v1 db t s = db_all db t s" by (simp add: runSelect_v1_def)
  show ?thesis
    by (rule conjI [OF g1 conjI [OF p1 conjI [OF g3 conjI [OF p3 conjI [OF a5 v1]]]]])
qed

theorem rejected_statement_never_reaches_store_witness:
  "handleGetSql (runSelect (sqlite_engine no_engine))
       (js ''/api/v1/sql/insert%20into%20patient%20values%20(1)'') empty_store =
     handleGetSql (runSelect no_engine)
       (js ''/api/v1/sql/insert%20into%20patient%20values%20(1)'') empty_store \<and>
   snd (handleGetSql (runSelect (sqlite_engine no_engine))
       (js ''/api/v1/sql/insert%20into%20patient%20values%20(1)'') empty_store) = empty_store \<and>
   handlePostSql (runInsert (sqlite_engine no_engine))
       (BodyQuery (js ''select * from patient'')) empty_store =
     handlePostSql (runInsert no_engine) (BodyQuery (js ''select * from patient'')) empty_store \<and>
   snd (handlePostSql (runInsert (sqlite_engine no_engine))
       (BodyQuery (js ''select * from patient'')) empty_store) = empty_store \<and>
   runInsert (sqlite_engine no_engine) (js ''drop table patient'') empty_store =
     runInsert_v1 (sqlite_engine no_engine) (js ''drop table patient'')
       (create_if_absent empty_store)"
proof -
  have r: "read_statement (js ''/api/v1/sql/insert%20into%20patient%20values%20(1)'') =
             Some (js ''insert into patient values (1)'')"
    by code_simp
  have c: "classify Read (js ''insert into patient values (1)'') \<noteq> Approved"
    by code_simp
  have cq: "classify Write (js ''select * from patient'') \<noteq> Approved"
    by code_simp
  have e: "ensureTableExists (sqlite_engine no_engine) empty_store =
             (Inr (), create_if_absent empty_store)"
    by code_simp
  note th = rejected_statement_never_reaches_store
    [where p = "js ''/api/v1/sql/insert%20into%20patient%20values%20(1)''"
       and sql = "js ''insert into patient values (1)''"
       and rs = "runSelect (sqlite_engine no_engine)" and rs' = "runSelect no_engine"
       and s = empty_store and q = "js ''select * from patient''"
       and ri = "runInsert (sqlite_engine no_engine)" and ri' = "runInsert no_engine"
       and db = "sqlite_engine no_engine" and ?s1.0 = "create_if_absent empty_store"
       and t = "js ''drop table patient''"]
  note g = th [THEN conjunct1, THEN mp, OF conjI [OF r c]]
  note p = th [THEN conjunct2, THEN conjunct1, THEN mp, OF cq]
  note a = th [THEN conjunct2, THEN conjunct2, THEN conjunct2, THEN conjunct2, THEN conjunct1,
               THEN mp, OF e, THEN conjunct2]
  show ?thesis
    by (rule conjI [OF g [THEN conjunct1] conjI [OF g [THEN conjunct2]
          conjI [OF p [THEN conjunct1] conjI [OF p [THEN conjunct2] a]]]])
qed

text \<open>
  Claim C3. The checks run in a fixed order and the first that fails decides: the
  forbidden-keyword check, then the shape of the statement for the channel, then the
  reference to the table. A text with a denylist keyword is \<open>Forbidden\<close> also when
  it has the wrong shape or does not name the table.
\<close>

theorem checks_apply_in_order:
  "(read_statement p = Some sql \<longrightarrow>
      (isForbidden sql \<longrightarrow>
         handleGetSql rs p s = (sendJSON 403 (ErrorReply (js ''Forbidden statement.'')), s)) \<and>
      (\<not> isForbidden sql \<and> \<not> isSelect sql \<longrightarrow>
         handleGetSql rs p s = (sendJSON 400 (ErrorReply (js ''GET only allows SELECT.'')), s)) \<and>
      (\<not> isForbidden sql \<and> isSelect sql \<and> \<not> touchesPatient sql \<longrightarrow>
         handleGetSql rs p s =
           (sendJSON 400 (ErrorReply (js ''Query must reference 'patient'.'')), s))) \<and>
   (\<not> blank q \<longrightarrow>
      (isForbidden q \<longrightarrow>
         handlePostSql ri (BodyQuery q) s =
           (Some (sendJSON 403 (ErrorReply (js ''Forbidden statement.''))), s)) \<and>
      (\<not> isForbidden q \<and> \<not> isInsert q \<longrightarrow>
         handlePostSql ri (BodyQuery q) s =
           (Some (sendJSON 400 (ErrorReply (js ''POST only allows INSERT.''))), s)) \<and>
      (\<not> isForbidden q \<and> isInsert q \<and> \<not> touchesPatient q \<longrightarrow>
         handlePostSql ri (BodyQuery q) s =
           (Some (sendJSON 400 (ErrorReply (js ''Query must reference 'patient'.''))), s))) \<and>
   (kw \<in> set denylist \<and> contains_whole_word kw t \<and> (\<not> shape_ok i t \<or> \<not> touchesPatient t) \<longrightarrow>
      classify i t = Forbidden)"
proof (intro conjI)
  show "read_statement p = Some sql \<longrightarrow>
      (isForbidden sql \<longrightarrow>
         handleGetSql rs p s = (sendJSON 403 (ErrorReply (js ''Forbidden statement.'')), s)) \<and>
      (\<not> isForbidden sql \<and> \<not> isSelect sql \<longrightarrow>
         handleGetSql rs p s = (sendJSON 400 (ErrorReply (js ''GET only allows SELECT.'')), s)) \<and>
      (\<not> isForbidden sql \<and> isSelect sql \<and> \<not> touchesPatient sql \<longrightarrow>
         handleGetSql rs p s =
           (sendJSON 400 (ErrorReply (js ''Query must reference 'patient'.'')), s))"
  proof (rule impI)
    assume r: "read_statement p = Some sql"
    show "(isForbidden sql \<longrightarrow>
         handleGetSql rs p s = (sendJSON 403 (ErrorReply (js ''Forbidden statement.'')), s)) \<and>
      (\<not> isForbidden sql \<and> \<not> isSelect sql \<longrightarrow>
         handleGetSql rs p s = (sendJSON 400 (ErrorReply (js ''GET only allows SELECT.'')), s)) \<and>
      (\<not> isForbidden sql \<and> isSelect sql \<and> \<not> touchesPatient sql \<longrightarrow>
         handleGetSql rs p s =
           (sendJSON 400 (ErrorReply (js ''Query must reference 'patient'.'')), s))"
      unfolding handleGetSql_statement [OF r] by simp
  qed
next
  show "\<not> blank q \<longrightarrow>
      (isForbidden q \<longrightarrow>
         handlePostSql ri (BodyQuery q) s =
           (Some (sendJSON 403 (ErrorReply (js ''Forbidden statement.''))), s)) \<and>
      (\<not> isForbidden q \<and> \<not> isInsert q \<longrightarrow>
         handlePostSql ri (BodyQuery q) s =
           (Some (sendJSON 400 (ErrorReply (js ''POST only allows INSERT.''))), s)) \<and>
      (\<not> isForbidden q \<and> isInsert q \<and> \<not> touchesPatient q \<longrightarrow>
         handlePostSql ri (BodyQuery q) s =
           (Some (sendJSON 400 (ErrorReply (js ''Query must reference 'patient'.''))), s))"
    unfolding handlePostSql_query by simp
next
  show "kw \<in> set denylist \<and> contains_whole_word kw t \<and> (\<not> shape_ok i t \<or> \<not> touchesPatient t) \<longrightarrow>
      classify i t = Forbidden"
  proof (rule impI, elim conjE)
    assume "kw \<in> set denylist" "contains_whole_word kw t"
    then have "isForbidden t" by (rule whole_word_forbidden)
    then show "classify i t = Forbidden" by (simp add: classify_def)
  qed
qed

theorem checks_apply_in_order_witness:
  "handleGetSql (runSelect no_engine) (js ''/api/v1/sql/drop%20table%20other'') empty_store =
     (sendJSON 403 (ErrorReply (js ''Forbidden statement.'')), empty_store) \<and>
   handleGetSql (runSelect no_engine) (js ''/api/v1/sql/insert%20into%20other'') empty_store =
     (sendJSON 400 (ErrorReply (js ''GET only allows SELECT.'')), empty_store) \<and>
   handleGetSql (runSelect no_engine) (js ''/api/v1/sql/select%20*%20from%20other_table'')
       empty_store =
     (sendJSON 400 (ErrorReply (js ''Query must reference 'patient'.'')), empty_store) \<and>
   handlePostSql (runInsert no_engine) (BodyQuery (js ''select 1; drop table other'')) empty_store =
     (Some (sendJSON 403 (ErrorReply (js ''Forbidden statement.''))), empty_store) \<and>
   classify Read (js ''truncate other'') = Forbidden"
proof -
  have r1: "read_statement (js ''/api/v1/sql/drop%20table%20other'') = Some (js ''drop table other'')"
    and r2: "read_statement (js ''/api/v1/sql/insert%20into%20other'') = Some (js ''insert into other'')"
    and r3: "read_statement (js ''/api/v1/sql/select%20*%20from%20other_table'') =
               Some (js ''select * from other_table'')"
    by code_simp+
  have f1: "isForbidden (js ''drop table other'')"
    and f2: "\<not> isForbidden (js ''insert into other'') \<and> \<not> isSelect (js ''insert into other'')"
    and f3: "\<not> isForbidden (js ''select * from other_table'') \<and> isSelect (js ''select * from other_table'')
               \<and> \<not> touchesPatient (js ''select * from other_table'')"
    and f4: "\<not> blank (js ''select 1; drop table other'')"
    and f5: "isForbidden (js ''select 1; drop table other'')"
    by code_simp+
  have k: "''truncate'' \<in> set denylist" by (simp add: denylist_def)
  have w: "contains_whole_word ''truncate'' (js ''truncate other'')"
    unfolding contains_whole_word_def
    by (rule exI [of _ "[]"], rule exI [of _ "js ''truncate''"], rule exI [of _ "js '' other''"])
       code_simp
  have n: "\<not> shape_ok Read (js ''truncate other'') \<or> \<not> touchesPatient (js ''truncate other'')"
    by code_simp
  note g1 = checks_apply_in_order [where p = "js ''/api/v1/sql/drop%20table%20other''"
      and rs = "runSelect no_engine" and s = empty_store,
      THEN conjunct1, THEN mp, OF r1, THEN conjunct1, THEN mp, OF f1]
  note g2 = checks_apply_in_order [where p = "js ''/api/v1/sql/insert%20into%20other''"
      and rs = "runSelect no_engine" and s = empty_store,
      THEN conjunct1, THEN mp, OF r2, THEN conjunct2, THEN conjunct1, THEN mp, OF f2]
  note g3 = checks_apply_in_order [where p = "js ''/api/v1/sql/select%20*%20from%20other_table''"
      and rs = "runSelect no_engine" and s = empty_store,
      THEN conjunct1, THEN mp, OF r3, THEN conjunct2, THEN conjunct2, THEN mp, OF f3]
  note g4 = checks_apply_in_order [where q = "js ''select 1; drop table other''"
      and ri = "runInsert no_engine" and s = empty_store,
      THEN conjunct2, THEN conjunct1, THEN mp, OF f4, THEN conjunct1, THEN mp, OF f5]
  note g5 = checks_apply_in_order [where kw = "''truncate''" and t = "js ''truncate other''"
      and i = Read and ?'a = sqlite,
      THEN conjunct2, THEN conjunct2, THEN mp, OF conjI [OF k conjI [OF w n]]]
  show ?thesis by (rule conjI [OF g1 conjI [OF g2 conjI [OF g3 conjI [OF g4 g5]]]])
qed

lemma get_is_not_options: "js ''GET'' \<noteq> js ''OPTIONS''"
  by (simp add: js_def)

text \<open>
  Claim C4. A GET request under \<open>/api/v1/sql/\<close> whose decoded text contains a denylist
  keyword is answered with status 403 and the body \<open>{"error": "Forbidden statement."}\<close>,
  whatever the database is; the store is returned as it was, so that nothing was executed
  and the table and its rows are unchanged.
\<close>

theorem forbidden_get_answers_403:
  assumes "kw \<in> set denylist" and "contains_whole_word kw sql"
    and "http_method req = js ''GET''"
    and "pathname req = Pathname path"
    and "startsWith path (js ''/api/v1/sql/'')"
    and "read_statement path = Some sql"
  shows "handleRequest db req s =
           (Some \<lparr>status = 403,
                   headers = [(''Access-Control-Allow-Origin'', ''*''),
                              (''Access-Control-Allow-Methods'', ''GET, POST, OPTIONS''),
                              (''Access-Control-Allow-Headers'', ''Content-Type''),
                              (''Content-Type'', ''application/json; charset=utf-8'')],
                   body = Json (ErrorReply (js ''Forbidden statement.''))\<rparr>, s)"
proof -
  from assms(1,2) have f: "isForbidden sql" by (rule whole_word_forbidden)
  have h: "handleGetSql (runSelect db) path s =
             (sendJSON 403 (ErrorReply (js ''Forbidden statement.'')), s)"
    unfolding handleGetSql_statement [OF assms(6)] using f by simp
  show ?thesis
    unfolding handleRequest_def assms(4) url_pathname.case h using assms(3,5) get_is_not_options
    by (simp add: sendJSON_def cors_def)
qed

theorem forbidden_get_answers_403_witness:
  "handleRequest (sqlite_engine no_engine)
     \<lparr>http_method = js ''GET'', pathname = Pathname (js ''/api/v1/sql/drop%20table%20patient''),
      post_body = BodyNull\<rparr>
     (create_if_absent empty_store) =
   (Some \<lparr>status = 403,
           headers = [(''Access-Control-Allow-Origin'', ''*''),
                      (''Access-Control-Allow-Methods'', ''GET, POST, OPTIONS''),
                      (''Access-Control-Allow-Headers'', ''Content-Type''),
                      (''Content-Type'', ''application/json; charset=utf-8'')],
           body = Json (ErrorReply (js ''Forbidden statement.''))\<rparr>,
    create_if_absent empty_store)"
proof -
  have k: "''drop'' \<in> set denylist" by (simp add: denylist_def)
  have w: "contains_whole_word ''drop'' (js ''drop table patient'')"
    unfolding contains_whole_word_def
    by (rule exI [of _ "[]"], rule exI [of _ "js ''drop''"],
        rule exI [of _ "js '' table patient''"]) code_simp
  have m: "http_method \<lparr>http_method = js ''GET'',
             pathname = Pathname (js ''/api/v1/sql/drop%20table%20patient''),
             post_body = BodyNull\<rparr> = js ''GET''"
    by simp
  have n: "pathname \<lparr>http_method = js ''GET'',
             pathname = Pathname (js ''/api/v1/sql/drop%20table%20patient''),
             post_body = BodyNull\<rparr> = Pathname (js ''/api/v1/sql/drop%20table%20patient'')"
    by simp
  have p: "startsWith (js ''/api/v1/sql/drop%20table%20patient'') (js ''/api/v1/sql/'')"
    by code_simp
  have r: "read_statement (js ''/api/v1/sql/drop%20table%20patient'') =
           Some (js ''drop table patient'')"
    by code_simp
  show ?thesis by (rule forbidden_get_answers_403 [OF k w m n p r])
qed

text \<open>
  Claim C10. Each of the four predicates evaluates a regular expression literal, which
  makes a new RegExp object, and calls \<open>test\<close> on it once. The patterns carry neither
  the flag \<open>g\<close> nor \<open>y\<close>, so \<open>test\<close> neither reads nor writes \<open>lastIndex\<close>, the
  only state of such an object: on the object of a predicate, whatever its \<open>lastIndex\<close>
  is, and so also on an object that an earlier call has used, \<open>test\<close> gives the value
  of the predicate and leaves the object as it was. The decision of the gateway is a
  function of the channel and the text alone: there is one function \<open>g\<close> of these two,
  which accepts exactly the texts that the four predicates classify as \<open>Approved\<close>,
  such that every run of a handler, with any store operation and any state of the store,
  rejects with the response \<open>g\<close> gives when it gives one, and otherwise hands that
  very text to the store operation.
\<close>

theorem decision_is_function_of_text_and_channel:
  "(\<forall>sql n.
      regexp_test (forbidden_re\<lparr>lastIndex := n\<rparr>) sql =
        (isForbidden sql, forbidden_re\<lparr>lastIndex := n\<rparr>) \<and>
      regexp_test (select_re\<lparr>lastIndex := n\<rparr>) sql =
        (isSelect sql, select_re\<lparr>lastIndex := n\<rparr>) \<and>
      regexp_test (insert_re\<lparr>lastIndex := n\<rparr>) sql =
        (isInsert sql, insert_re\<lparr>lastIndex := n\<rparr>) \<and>
      regexp_test (patient_re\<lparr>lastIndex := n\<rparr>) sql =
        (touchesPatient sql, patient_re\<lparr>lastIndex := n\<rparr>)) \<and>
   (\<exists>g. \<forall>sql.
     (\<forall>i. g i sql = None \<longleftrightarrow> classify i sql = Approved) \<and>
     (\<forall>p (rs :: jsstring \<Rightarrow> 's \<Rightarrow> (jsstring + row list) \<times> 's) s.
        read_statement p = Some sql \<longrightarrow>
        handleGetSql rs p s =
          (case g Read sql of
             Some r \<Rightarrow> (r, s)
           | None \<Rightarrow>
               (case rs sql s of
                  (Inr rows, s') \<Rightarrow> (sendJSON 200 (RowsReply rows), s')
                | (Inl e, s') \<Rightarrow> (sendJSON 400 (ErrorReply e), s')))) \<and>
     (\<forall>(ri :: jsstring \<Rightarrow> 's \<Rightarrow> (jsstring + insert_result) \<times> 's) s.
        handlePostSql ri (BodyQuery sql) s =
          (case g Write sql of
             Some r \<Rightarrow> (Some r, s)
           | None \<Rightarrow>
               (case ri sql s of
                  (Inr r, s') \<Rightarrow>
                    (Some (sendJSON 200 (InsertReply (affectedRows r) (insertId r))), s')
                | (Inl e, s') \<Rightarrow> (Some (sendJSON 400 (ErrorReply e)), s')))))"
proof -
  have f: "regexp_test (forbidden_re\<lparr>lastIndex := n\<rparr>) sql =
             (isForbidden sql, forbidden_re\<lparr>lastIndex := n\<rparr>)" for sql n
    unfolding isForbidden_test forbidden_re_def by (rule regexp_test_literal)
  have sl: "regexp_test (select_re\<lparr>lastIndex := n\<rparr>) sql =
             (isSelect sql, select_re\<lparr>lastIndex := n\<rparr>)" for sql n
    unfolding isSelect_test select_re_def by (rule regexp_test_literal)
  have ins: "regexp_test (insert_re\<lparr>lastIndex := n\<rparr>) sql =
             (isInsert sql, insert_re\<lparr>lastIndex := n\<rparr>)" for sql n
    unfolding isInsert_test insert_re_def by (rule regexp_test_literal)
  have pt: "regexp_test (patient_re\<lparr>lastIndex := n\<rparr>) sql =
             (touchesPatient sql, patient_re\<lparr>lastIndex := n\<rparr>)" for sql n
    unfolding touchesPatient_test patient_re_def by (rule regexp_test_literal)
  have preds: "\<forall>sql n.
      regexp_test (forbidden_re\<lparr>lastIndex := n\<rparr>) sql =
        (isForbidden sql, forbidden_re\<lparr>lastIndex := n\<rparr>) \<and>
      regexp_test (select_re\<lparr>lastIndex := n\<rparr>) sql =
        (isSelect sql, select_re\<lparr>lastIndex := n\<rparr>) \<and>
      regexp_test (insert_re\<lparr>lastIndex := n\<rparr>) sql =
        (isInsert sql, insert_re\<lparr>lastIndex := n\<rparr>) \<and>
      regexp_test (patient_re\<lparr>lastIndex := n\<rparr>) sql =
        (touchesPatient sql, patient_re\<lparr>lastIndex := n\<rparr>)"
    by (intro allI conjI) (rule f sl ins pt)+
  define g where "g = (\<lambda>i sql.
     if i = Write \<and> blank sql then Some (sendJSON 400 (ErrorReply (js ''Missing 'query' field.'')))
     else if isForbidden sql then Some (sendJSON 403 (ErrorReply (js ''Forbidden statement.'')))
     else if \<not> shape_ok i sql
     then Some (sendJSON 400 (ErrorReply
            (if i = Read then js ''GET only allows SELECT.'' else js ''POST only allows INSERT.'')))
     else if \<not> touchesPatient sql
     then Some (sendJSON 400 (ErrorReply (js ''Query must reference 'patient'.'')))
     else None)"
  have acc: "g i sql = None \<longleftrightarrow> classify i sql = Approved" for i sql
  proof (cases "i = Write \<and> blank sql")
    case True
    then have "\<not> shape_ok i sql" using blank_not_insert by simp
    then have "classify i sql \<noteq> Approved" by (simp add: classify_def)
    with True show ?thesis unfolding g_def by simp
  next
    case False
    then show ?thesis unfolding g_def classify_def by auto
  qed
  have get: "handleGetSql rs p s =
          (case g Read sql of
             Some r \<Rightarrow> (r, s)
           | None \<Rightarrow>
               (case rs sql s of
                  (Inr rows, s') \<Rightarrow> (sendJSON 200 (RowsReply rows), s')
                | (Inl e, s') \<Rightarrow> (sendJSON 400 (ErrorReply e), s')))"
    if r: "read_statement p = Some sql"
    for p sql and rs :: "jsstring \<Rightarrow> 's \<Rightarrow> (jsstring + row list) \<times> 's" and s
    unfolding handleGetSql_statement [OF r] g_def by simp
  have post: "handlePostSql ri (BodyQuery sql) s =
          (case g Write sql of
             Some r \<Rightarrow> (Some r, s)
           | None \<Rightarrow>
               (case ri sql s of
                  (Inr r, s') \<Rightarrow>
                    (Some (sendJSON 200 (InsertReply (affectedRows r) (insertId r))), s')
                | (Inl e, s') \<Rightarrow> (Some (sendJSON 400 (ErrorReply e)), s')))"
    for sql and ri :: "jsstring \<Rightarrow> 's \<Rightarrow> (jsstring + insert_result) \<times> 's" and s
    unfolding handlePostSql_query g_def by simp
  show ?thesis
  proof (rule conjI [OF preds], rule exI [of _ g], rule allI, intro conjI)
    fix sql
    show "\<forall>i. g i sql = None \<longleftrightarrow> classify i sql = Approved"
      by (rule allI) (rule acc)
    show "\<forall>p (rs :: jsstring \<Rightarrow> 's \<Rightarrow> (jsstring + row list) \<times> 's) s.
        read_statement p = Some sql \<longrightarrow>
        handleGetSql rs p s =
          (case g Read sql of
             Some r \<Rightarrow> (r, s)
           | None \<Rightarrow>
               (case rs sql s of
                  (Inr rows, s') \<Rightarrow> (sendJSON 200 (RowsReply rows), s')
                | (Inl e, s') \<Rightarrow> (sendJSON 400 (ErrorReply e), s')))"
      by (intro allI impI) (rule get)
    show "\<forall>(ri :: jsstring \<Rightarrow> 's \<Rightarrow> (jsstring + insert_result) \<times> 's) s.
        handlePostSql ri (BodyQuery sql) s =
          (case g Write sql of
             Some r \<Rightarrow> (Some r, s)
           | None \<Rightarrow>
               (case ri sql s of
                  (Inr r, s') \<Rightarrow>
                    (Some (sendJSON 200 (InsertReply (affectedRows r) (insertId r))), s')
                | (Inl e, s') \<Rightarrow> (Some (sendJSON 400 (ErrorReply e)), s')))"
      by (intro allI) (rule post)
  qed
qed

theorem decision_is_function_of_text_and_channel_witness:
  "regexp_test (forbidden_re\<lparr>lastIndex := 99\<rparr>) (js ''drop table patient'') =
     (True, forbidden_re\<lparr>lastIndex := 99\<rparr>) \<and>
   regexp_test (select_re\<lparr>lastIndex := 3\<rparr>) (js ''drop table patient'') =
     (False, select_re\<lparr>lastIndex := 3\<rparr>) \<and>
   fst (handleGetSql (runSelect no_engine) (js ''/api/v1/sql/drop%20table%20patient'')
          empty_store) =
   fst (handleGetSql (runSelect (sqlite_engine no_engine))
          (js ''/api/v1/sql/%64rop%20table%20patient'') (create_if_absent empty_store))"
proof -
  have r1: "read_statement (js ''/api/v1/sql/drop%20table%20patient'') = Some (js ''drop table patient'')"
    by code_simp
  have r2: "read_statement (js ''/api/v1/sql/%64rop%20table%20patient'') = Some (js ''drop table patient'')"
    by code_simp
  have v1: "handleGetSql (runSelect no_engine) (js ''/api/v1/sql/drop%20table%20patient'')
              empty_store \<noteq>
            (case runSelect no_engine (js ''drop table patient'') empty_store of
               (Inr rows, s') \<Rightarrow> (sendJSON 200 (RowsReply rows), s')
             | (Inl e, s') \<Rightarrow> (sendJSON 400 (ErrorReply e), s'))"
    by code_simp
  have f: "isForbidden (js ''drop table patient'') = True" by code_simp
  have sl: "isSelect (js ''drop table patient'') = False" by code_simp
  note th = decision_is_function_of_text_and_channel [where ?'s = sqlite]
  note p1 = th [THEN conjunct1, rule_format, THEN conjunct1,
                of 99 "js ''drop table patient''", unfolded f]
  note p2 = th [THEN conjunct1, rule_format, THEN conjunct2, THEN conjunct1,
                of 3 "js ''drop table patient''", unfolded sl]
  from th [THEN conjunct2]
  obtain g where G: "\<forall>sql.
     (\<forall>i. g i sql = None \<longleftrightarrow> classify i sql = Approved) \<and>
     (\<forall>p (rs :: jsstring \<Rightarrow> sqlite \<Rightarrow> (jsstring + row list) \<times> sqlite) s.
        read_statement p = Some sql \<longrightarrow>
        handleGetSql rs p s =
          (case g Read sql of
             Some r \<Rightarrow> (r, s)
           | None \<Rightarrow>
               (case rs sql s of
                  (Inr rows, s') \<Rightarrow> (sendJSON 200 (RowsReply rows), s')
                | (Inl e, s') \<Rightarrow> (sendJSON 400 (ErrorReply e), s')))) \<and>
     (\<forall>(ri :: jsstring \<Rightarrow> sqlite \<Rightarrow> (jsstring + insert_result) \<times> sqlite) s.
        handlePostSql ri (BodyQuery sql) s =
          (case g Write sql of
             Some r \<Rightarrow> (Some r, s)
           | None \<Rightarrow>
               (case ri sql s of
                  (Inr r, s') \<Rightarrow>
                    (Some (sendJSON 200 (InsertReply (affectedRows r) (insertId r))), s')
                | (Inl e, s') \<Rightarrow> (Some (sendJSON 400 (ErrorReply e)), s'))))"
    by (rule exE)
  note a = G [rule_format, THEN conjunct2, THEN conjunct1, rule_format, OF r1,
              of "runSelect no_engine" empty_store]
  note b = G [rule_format, THEN conjunct2, THEN conjunct1, rule_format, OF r2,
              of "runSelect (sqlite_engine no_engine)" "create_if_absent empty_store"]
  have c: "fst (handleGetSql (runSelect no_engine) (js ''/api/v1/sql/drop%20table%20patient'')
          empty_store) =
   fst (handleGetSql (runSelect (sqlite_engine no_engine))
          (js ''/api/v1/sql/%64rop%20table%20patient'') (create_if_absent empty_store))"
  proof (cases "g Read (js ''drop table patient'')")
    case None
    with a v1 show ?thesis by simp
  next
    case (Some r)
    with a b show ?thesis by simp
  qed
  show ?thesis by (rule conjI [OF p1 conjI [OF p2 c]])
qed




text \<open>
  Claim C6, as stated, fails on the write channel: a text of white space only is not
  rejected there with the answer of a wrong intent ("POST only allows INSERT.") but
  earlier, with "Missing 'query' field.".
\<close>

theorem blank_post_is_missing_query_counterexample:
  "blank (js ''   '') \<and>
   handlePostSql (runInsert no_engine) (BodyQuery (js ''   '')) empty_store =
     (Some (sendJSON 400 (ErrorReply (js ''Missing 'query' field.''))), empty_store) \<and>
   fst (handlePostSql (runInsert no_engine) (BodyQuery (js ''   '')) empty_store) \<noteq>
     Some (sendJSON 400 (ErrorReply (js ''POST only allows INSERT.'')))"
  by code_simp

lemma join_nonempty: "xs \<noteq> [] \<Longrightarrow> hd xs \<noteq> [] \<Longrightarrow> join sep xs \<noteq> []"
proof (cases xs)
  case Nil
  assume "xs \<noteq> []"
  with Nil show ?thesis by simp
next
  case (Cons x ys)
  assume "hd xs \<noteq> []"
  with Cons show ?thesis by (cases ys) simp_all
qed

lemma escapes_nonempty: "escapes (c # cs) = Some ts \<Longrightarrow> ts \<noteq> []"
  by (auto split: if_splits list.splits option.splits)

lemma utf16_nonempty: "utf16 cp \<noteq> []"
  by (simp add: utf16_def)

lemma utf8_units_nonempty: "utf8_units (t # ts) = Some out \<Longrightarrow> out \<noteq> []"
  by (cases t) (auto simp: utf16_nonempty Let_def split: if_splits list.splits sum.splits)

lemma decodeURIComponent_nonempty:
  assumes "x \<noteq> []" and "decodeURIComponent x = Some out"
  shows "out \<noteq> []"
proof -
  from assms(1) obtain c cs where x: "x = c # cs" by (cases x) simp_all
  from assms(2) obtain ts where e: "escapes x = Some ts" and u: "utf8_units ts = Some out"
    unfolding decodeURIComponent_def by (simp split: option.splits)
  from e x have "ts \<noteq> []" using escapes_nonempty by simp
  then obtain t ts' where "ts = t # ts'" by (cases ts) simp_all
  with u show ?thesis using utf8_units_nonempty by simp
qed

lemma read_statement_nonempty: "read_statement p \<noteq> Some []"
proof
  assume a: "read_statement p = Some []"
  define parts where "parts = filter (\<lambda>p. p \<noteq> []) (split_on 0x2F p)"
  from a have l: "\<not> length parts < 4"
    and d: "decodeURIComponent (join (js ''/'') (drop 3 parts)) = Some []"
    unfolding read_statement_def parts_def Let_def by (simp_all split: if_splits)
  from l have ne: "drop 3 parts \<noteq> []" by simp
  then have "hd (drop 3 parts) \<in> set parts" by (meson hd_in_set in_set_dropD)
  then have "hd (drop 3 parts) \<noteq> []" unfolding parts_def by simp
  with ne have "join (js ''/'') (drop 3 parts) \<noteq> []" by (rule join_nonempty)
  from decodeURIComponent_nonempty [OF this d] show False by simp
qed

lemma handleGetSql_no_segment:
  assumes "length (path_segments p) < 4"
  shows "handleGetSql rs p s = (sendJSON 400 (ErrorReply (js ''Missing SQL in path.'')), s)"
  using assms unfolding handleGetSql_def path_segments_def Let_def by simp

text \<open>
  Claim C6, amended. For a text that is empty or holds white space only, none of the
  patterns for a forbidden keyword, \<open>select\<close> or \<open>insert\<close> matches, so the
  classification is \<open>WrongIntent\<close> for either intent. The request is rejected as one of
  a wrong intent on the read channel only: there such a text is not empty, and it is
  answered with 400 "GET only allows SELECT.". The empty text does not arrive on the read
  channel: the text read from a path is never empty, and a path with fewer than four
  segments, such as \<open>/api/v1/sql/\<close>, is rejected before the checks, with 400
  "Missing SQL in path.". On the write channel the guard on the trimmed text rejects a
  text that is empty or holds white space only before the checks, with 400
  "Missing 'query' field.".
\<close>

theorem blank_text_is_wrong_intent:
  assumes "blank sql"
  shows "\<not> isForbidden sql \<and> \<not> isSelect sql \<and> \<not> isInsert sql \<and>
         classify i sql = WrongIntent \<and>
         (read_statement p = Some sql \<longrightarrow>
            sql \<noteq> [] \<and>
            handleGetSql rs p s = (sendJSON 400 (ErrorReply (js ''GET only allows SELECT.'')), s)) \<and>
         read_statement p \<noteq> Some [] \<and>
         (length (path_segments p) < 4 \<longrightarrow>
            handleGetSql rs p s = (sendJSON 400 (ErrorReply (js ''Missing SQL in path.'')), s)) \<and>
         handlePostSql ri (BodyQuery sql) s =
           (Some (sendJSON 400 (ErrorReply (js ''Missing 'query' field.''))), s)"
proof -
  from assms have f: "\<not> isForbidden sql" and sl: "\<not> isSelect sql" and ins: "\<not> isInsert sql"
    by (rule blank_not_forbidden, rule blank_not_select, rule blank_not_insert)
  have sh: "\<not> shape_ok i sql" using sl ins by (cases i) simp_all
  have c: "classify i sql = WrongIntent" using f sh by (simp add: classify_def)
  have g: "read_statement p = Some sql \<longrightarrow>
            sql \<noteq> [] \<and>
            handleGetSql rs p s = (sendJSON 400 (ErrorReply (js ''GET only allows SELECT.'')), s)"
  proof (rule impI, rule conjI)
    assume r: "read_statement p = Some sql"
    show "sql \<noteq> []" using r read_statement_nonempty [of p] by auto
    show "handleGetSql rs p s = (sendJSON 400 (ErrorReply (js ''GET only allows SELECT.'')), s)"
      unfolding handleGetSql_statement [OF r] using f sl by simp
  qed
  have ne: "read_statement p \<noteq> Some []" by (rule read_statement_nonempty)
  have m: "length (path_segments p) < 4 \<longrightarrow>
            handleGetSql rs p s = (sendJSON 400 (ErrorReply (js ''Missing SQL in path.'')), s)"
    by (rule impI) (rule handleGetSql_no_segment)
  have po: "handlePostSql ri (BodyQuery sql) s =
           (Some (sendJSON 400 (ErrorReply (js ''Missing 'query' field.''))), s)"
    unfolding handlePostSql_query using assms by simp
  show ?thesis
    by (rule conjI [OF f conjI [OF sl conjI [OF ins conjI [OF c conjI [OF g conjI [OF ne
          conjI [OF m po]]]]]]])
qed

theorem blank_text_is_wrong_intent_witness:
  "classify Read [0x20, 0x09, 0x0A] = WrongIntent \<and>
   classify Write [0x20, 0x09, 0x0A] = WrongIntent \<and>
   handleGetSql (runSelect no_engine) (js ''/api/v1/sql/%20%09%0A'') empty_store =
     (sendJSON 400 (ErrorReply (js ''GET only allows SELECT.'')), empty_store) \<and>
   handleGetSql (runSelect no_engine) (js ''/api/v1/sql/'') empty_store =
     (sendJSON 400 (ErrorReply (js ''Missing SQL in path.'')), empty_store) \<and>
   classify Read [] = WrongIntent \<and>
   handlePostSql (runInsert no_engine) (BodyQuery []) empty_store =
     (Some (sendJSON 400 (ErrorReply (js ''Missing 'query' field.''))), empty_store) \<and>
   handlePostSql (runInsert no_engine) (BodyQuery [0x20, 0x09, 0x0A]) empty_store =
     (Some (sendJSON 400 (ErrorReply (js ''Missing 'query' field.''))), empty_store)"
proof -
  have b: "blank [0x20, 0x09, 0x0A]" by code_simp
  have b0: "blank []" by code_simp
  have r: "read_statement (js ''/api/v1/sql/%20%09%0A'') = Some [0x20, 0x09, 0x0A]"
    by code_simp
  have l: "length (path_segments (js ''/api/v1/sql/'')) < 4" by code_simp
  note th = blank_text_is_wrong_intent [OF b]
  note th0 = blank_text_is_wrong_intent [OF b0]
  note c1 = th [where i = Read and ?'a = sqlite, THEN conjunct2, THEN conjunct2, THEN conjunct2,
                THEN conjunct1]
  note c2 = th [where i = Write and ?'a = sqlite, THEN conjunct2, THEN conjunct2, THEN conjunct2,
                THEN conjunct1]
  note g = th [where rs = "runSelect no_engine" and s = empty_store,
               THEN conjunct2, THEN conjunct2, THEN conjunct2, THEN conjunct2, THEN conjunct1,
               THEN mp, OF r, THEN conjunct2]
  note m = th0 [where rs = "runSelect no_engine" and s = empty_store,
               THEN conjunct2, THEN conjunct2, THEN conjunct2, THEN conjunct2, THEN conjunct2,
               THEN conjunct2, THEN conjunct1, THEN mp, OF l]
  note c0 = th0 [where i = Read and ?'a = sqlite, THEN conjunct2, THEN conjunct2, THEN conjunct2,
                THEN conjunct1]
  note p0 = th0 [where ri = "runInsert no_engine" and s = empty_store,
               THEN conjunct2, THEN conjunct2, THEN conjunct2, THEN conjunct2, THEN conjunct2,
               THEN conjunct2, THEN conjunct2]
  note p = th [where ri = "runInsert no_engine" and s = empty_store,
               THEN conjunct2, THEN conjunct2, THEN conjunct2, THEN conjunct2, THEN conjunct2,
               THEN conjunct2, THEN conjunct2]
  show ?thesis
    by (rule conjI [OF c1 conjI [OF c2 conjI [OF g conjI [OF m conjI [OF c0 conjI [OF p0 p]]]]]])
qed

text \<open>
  Claim C7, as stated, fails: \<open>GET /\<close> is none of the documented entries, and the
  router answers it with status 200 and a text, not with a not-found response.
\<close>

theorem root_path_is_not_404_counterexample:
  "handleRequest no_engine
     \<lparr>http_method = js ''GET'', pathname = Pathname (js ''/''), post_body = BodyNull\<rparr>
     empty_store =
     (Some (sendText 200 banner), empty_store) \<and>
   status (sendText 200 banner) = 200 \<and>
   js ''GET'' \<noteq> js ''OPTIONS'' \<and> js ''GET'' \<noteq> js ''POST'' \<and>
   \<not> startsWith (js ''/'') (js ''/api/v1/sql/'')"
  by code_simp

text \<open>
  A request target from which \<open>url.parse\<close> gets no pathname is outside the amended
  claim when the method is \<open>GET\<close>: the router throws at \<open>pathname.startsWith\<close> and
  sends no response, as it does when \<open>url.parse\<close> itself throws.
\<close>

lemma no_pathname_no_response:
  "(pathname req = ParseThrows \<longrightarrow> handleRequest db req s = (None, s)) \<and>
   (pathname req = PathnameNull \<and> http_method req = js ''GET'' \<longrightarrow>
      handleRequest db req s = (None, s))"
  unfolding handleRequest_def using get_is_not_options by simp

text \<open>
  Claim C7, amended. For a request whose target has a pathname: when it is not
  \<open>OPTIONS\<close>, not a \<open>GET\<close> whose path starts with \<open>/api/v1/sql/\<close> or is \<open>/\<close>, and
  not a \<open>POST\<close> to \<open>/api/v1/sql\<close> or \<open>/api/v1/seed\<close>, it is answered with status
  404 and \<open>{"error": "Not found"}\<close>, and the store is untouched. So is a request whose
  target has no pathname when its method is neither \<open>OPTIONS\<close> nor \<open>GET\<close>.
  \<open>GET /\<close> is answered with status 200 and the text of the banner.
\<close>

theorem unrouted_request_is_not_found:
  "(pathname req = Pathname p \<and> http_method req \<noteq> js ''OPTIONS'' \<and>
    \<not> (http_method req = js ''GET'' \<and> (startsWith p (js ''/api/v1/sql/'') \<or> p = js ''/'')) \<and>
    \<not> (http_method req = js ''POST'' \<and> (p = js ''/api/v1/sql'' \<or> p = js ''/api/v1/seed'')) \<longrightarrow>
    handleRequest db req s = (Some (sendJSON 404 (ErrorReply (js ''Not found''))), s)) \<and>
   (pathname req = PathnameNull \<and> http_method req \<noteq> js ''OPTIONS'' \<and>
    http_method req \<noteq> js ''GET'' \<longrightarrow>
    handleRequest db req s = (Some (sendJSON 404 (ErrorReply (js ''Not found''))), s)) \<and>
   (pathname req = Pathname (js ''/'') \<and> http_method req = js ''GET'' \<longrightarrow>
    handleRequest db req s = (Some (sendText 200 banner), s))"
proof (intro conjI)
  show "pathname req = Pathname p \<and> http_method req \<noteq> js ''OPTIONS'' \<and>
    \<not> (http_method req = js ''GET'' \<and> (startsWith p (js ''/api/v1/sql/'') \<or> p = js ''/'')) \<and>
    \<not> (http_method req = js ''POST'' \<and> (p = js ''/api/v1/sql'' \<or> p = js ''/api/v1/seed'')) \<longrightarrow>
    handleRequest db req s = (Some (sendJSON 404 (ErrorReply (js ''Not found''))), s)"
    unfolding handleRequest_def by simp
next
  show "pathname req = PathnameNull \<and> http_method req \<noteq> js ''OPTIONS'' \<and>
    http_method req \<noteq> js ''GET'' \<longrightarrow>
    handleRequest db req s = (Some (sendJSON 404 (ErrorReply (js ''Not found''))), s)"
    unfolding handleRequest_def by simp
next
  have n: "\<not> startsWith (js ''/'') (js ''/api/v1/sql/'')" by code_simp
  have m: "js ''GET'' \<noteq> js ''POST''" by (simp add: js_def)
  show "pathname req = Pathname (js ''/'') \<and> http_method req = js ''GET'' \<longrightarrow>
    handleRequest db req s = (Some (sendText 200 banner), s)"
    unfolding handleRequest_def using n m get_is_not_options by simp
qed

theorem unrouted_request_is_not_found_witness:
  "handleRequest (sqlite_engine no_engine)
     \<lparr>http_method = js ''PUT'', pathname = Pathname (js ''/api/v1/sql''), post_body = BodyNull\<rparr>
     empty_store =
     (Some (sendJSON 404 (ErrorReply (js ''Not found''))), empty_store) \<and>
   handleRequest (sqlite_engine no_engine)
     \<lparr>http_method = js ''GET'', pathname = Pathname (js ''/api/v1/sql''), post_body = BodyNull\<rparr>
     empty_store =
     (Some (sendJSON 404 (ErrorReply (js ''Not found''))), empty_store) \<and>
   handleRequest (sqlite_engine no_engine)
     \<lparr>http_method = js ''POST'', pathname = PathnameNull, post_body = BodyNull\<rparr>
     empty_store =
     (Some (sendJSON 404 (ErrorReply (js ''Not found''))), empty_store) \<and>
   handleRequest (sqlite_engine no_engine)
     \<lparr>http_method = js ''GET'', pathname = Pathname (js ''/''), post_body = BodyNull\<rparr>
     empty_store =
     (Some (sendText 200 banner), empty_store)"
proof -
  have h1: "pathname \<lparr>http_method = js ''PUT'', pathname = Pathname (js ''/api/v1/sql''),
                post_body = BodyNull\<rparr> = Pathname (js ''/api/v1/sql'') \<and>
    http_method \<lparr>http_method = js ''PUT'', pathname = Pathname (js ''/api/v1/sql''),
                post_body = BodyNull\<rparr> \<noteq> js ''OPTIONS'' \<and>
    \<not> (http_method \<lparr>http_method = js ''PUT'', pathname = Pathname (js ''/api/v1/sql''),
                post_body = BodyNull\<rparr> = js ''GET'' \<and>
         (startsWith (js ''/api/v1/sql'') (js ''/api/v1/sql/'') \<or>
          js ''/api/v1/sql'' = js ''/'')) \<and>
    \<not> (http_method \<lparr>http_method = js ''PUT'', pathname = Pathname (js ''/api/v1/sql''),
                post_body = BodyNull\<rparr> = js ''POST'' \<and>
         (js ''/api/v1/sql'' = js ''/api/v1/sql'' \<or> js ''/api/v1/sql'' = js ''/api/v1/seed''))"
    by code_simp
  have h2: "pathname \<lparr>http_method = js ''GET'', pathname = Pathname (js ''/api/v1/sql''),
                post_body = BodyNull\<rparr> = Pathname (js ''/api/v1/sql'') \<and>
    http_method \<lparr>http_method = js ''GET'', pathname = Pathname (js ''/api/v1/sql''),
                post_body = BodyNull\<rparr> \<noteq> js ''OPTIONS'' \<and>
    \<not> (http_method \<lparr>http_method = js ''GET'', pathname = Pathname (js ''/api/v1/sql''),
                post_body = BodyNull\<rparr> = js ''GET'' \<and>
         (startsWith (js ''/api/v1/sql'') (js ''/api/v1/sql/'') \<or>
          js ''/api/v1/sql'' = js ''/'')) \<and>
    \<not> (http_method \<lparr>http_method = js ''GET'', pathname = Pathname (js ''/api/v1/sql''),
                post_body = BodyNull\<rparr> = js ''POST'' \<and>
         (js ''/api/v1/sql'' = js ''/api/v1/sql'' \<or> js ''/api/v1/sql'' = js ''/api/v1/seed''))"
    by code_simp
  have h3: "pathname \<lparr>http_method = js ''POST'', pathname = PathnameNull,
                post_body = BodyNull\<rparr> = PathnameNull \<and>
    http_method \<lparr>http_method = js ''POST'', pathname = PathnameNull,
                post_body = BodyNull\<rparr> \<noteq> js ''OPTIONS'' \<and>
    http_method \<lparr>http_method = js ''POST'', pathname = PathnameNull,
                post_body = BodyNull\<rparr> \<noteq> js ''GET''"
    by code_simp
  have h4: "pathname \<lparr>http_method = js ''GET'', pathname = Pathname (js ''/''),
                post_body = BodyNull\<rparr> = Pathname (js ''/'') \<and>
    http_method \<lparr>http_method = js ''GET'', pathname = Pathname (js ''/''),
                post_body = BodyNull\<rparr> = js ''GET''"
    by code_simp
  note a = unrouted_request_is_not_found [THEN conjunct1, THEN mp, OF h1]
  note b = unrouted_request_is_not_found [THEN conjunct1, THEN mp, OF h2]
  note c = unrouted_request_is_not_found [THEN conjunct2, THEN conjunct1, THEN mp, OF h3]
  note d = unrouted_request_is_not_found [THEN conjunct2, THEN conjunct2, THEN mp, OF h4]
  show ?thesis by (rule conjI [OF a conjI [OF b conjI [OF c d]]])
qed

lemma create_if_absent_has_table: "map_of (tables (create_if_absent d)) (js ''patient'') \<noteq> None"
  by (cases "map_of (tables d) (js ''patient'')") (simp_all add: create_if_absent_def map_add_def)

lemma create_if_absent_present:
  "map_of (tables d) (js ''patient'') \<noteq> None \<Longrightarrow> create_if_absent d = d"
  by (cases "map_of (tables d) (js ''patient'')") (simp_all add: create_if_absent_def)

lemma create_if_absent_idem: "create_if_absent (create_if_absent d) = create_if_absent d"
  by (rule create_if_absent_present) (rule create_if_absent_has_table)

lemma patient_tables_None:
  "map_of ts (js ''patient'') = None \<longleftrightarrow> filter (\<lambda>t. fst t = js ''patient'') ts = []"
  by (induction ts) auto

lemma create_if_absent_one_table:
  assumes "length (filter (\<lambda>t. fst t = js ''patient'') (tables d)) \<le> 1"
  shows "length (filter (\<lambda>t. fst t = js ''patient'') (tables (create_if_absent d))) = 1"
proof (cases "map_of (tables d) (js ''patient'')")
  case None
  then have "filter (\<lambda>t. fst t = js ''patient'') (tables d) = []"
    by (simp add: patient_tables_None)
  with None show ?thesis by (simp add: create_if_absent_def)
next
  case (Some rs)
  then have "filter (\<lambda>t. fst t = js ''patient'') (tables d) \<noteq> []"
    using patient_tables_None [of "tables d"] by simp
  then have "0 < length (filter (\<lambda>t. fst t = js ''patient'') (tables d))" by simp
  with assms have "length (filter (\<lambda>t. fst t = js ''patient'') (tables d)) = 1" by linarith
  with Some show ?thesis by (simp add: create_if_absent_def)
qed

lemma bootstrap_sql_text:
  "create_table_sql 10 =
     ([0x0A] @ js ''          CREATE TABLE IF NOT EXISTS patient ('' @
      [0x0A] @ js ''            patientid   INTEGER PRIMARY KEY AUTOINCREMENT,'' @
      [0x0A] @ js ''            name        VARCHAR(100) NOT NULL,'' @
      [0x0A] @ js ''            dateOfBirth DATETIME'' @
      [0x0A] @ js ''          );'' @
      [0x0A] @ js ''        '')"
  by code_simp

lemma ensureTableExists_sql_text:
  "create_table_sql 8 =
     ([0x0A] @ js ''        CREATE TABLE IF NOT EXISTS patient ('' @
      [0x0A] @ js ''          patientid   INTEGER PRIMARY KEY AUTOINCREMENT,'' @
      [0x0A] @ js ''          name        VARCHAR(100) NOT NULL,'' @
      [0x0A] @ js ''          dateOfBirth DATETIME'' @
      [0x0A] @ js ''        );'' @
      [0x0A] @ js ''      '')"
  by code_simp

lemma create_table_sql_is_create:
  "is_create_table (create_table_sql 10) \<and> is_create_table (create_table_sql 8)"
  by code_simp

lemma sqlite_run_create:
  "is_create_table sql \<Longrightarrow>
   db_run (sqlite_engine other) sql ps d =
     (Inr \<lparr>changes = conn_changes (create_if_absent d),
           lastID = conn_last_rowid (create_if_absent d)\<rparr>, create_if_absent d)"
  by (simp add: sqlite_engine_def Let_def)

lemma sqlite_bootstrap: "bootstrap (sqlite_engine other) d = (Inr (), create_if_absent d)"
  by (simp add: bootstrap_def sqlite_run_create [OF create_table_sql_is_create [THEN conjunct1]])

lemma sqlite_ensureTableExists:
  "ensureTableExists (sqlite_engine other) d = (Inr (), create_if_absent d)"
  by (simp add: ensureTableExists_def
        sqlite_run_create [OF create_table_sql_is_create [THEN conjunct2]])

text \<open>
  Claim C8. \<open>bootstrap\<close> and \<open>ensureTableExists\<close> each run one statement, the text
  \<open>CREATE TABLE IF NOT EXISTS patient (...)\<close> of their template literal, and succeed
  when it does. On the modelled storage engine the creation of the table is idempotent:
  \<open>bootstrap\<close> succeeds, a second \<open>bootstrap\<close> or an \<open>ensureTableExists\<close> after it
  succeeds too and leaves the store as it is; a table that exists keeps its rows; a
  schema with at most one table \<open>patient\<close> has exactly one afterwards. \<open>runSelect\<close> and
  \<open>runInsert\<close> execute their statement on a store that has the table.
\<close>

theorem create_table_is_idempotent:
  "bootstrap db s =
     (case db_run db
         ([0x0A] @ js ''          CREATE TABLE IF NOT EXISTS patient ('' @
          [0x0A] @ js ''            patientid   INTEGER PRIMARY KEY AUTOINCREMENT,'' @
          [0x0A] @ js ''            name        VARCHAR(100) NOT NULL,'' @
          [0x0A] @ js ''            dateOfBirth DATETIME'' @
          [0x0A] @ js ''          );'' @
          [0x0A] @ js ''        '') [] s of
        (Inl e, s') \<Rightarrow> (Inl e, s')
      | (Inr r, s') \<Rightarrow> (Inr (), s')) \<and>
   ensureTableExists db s =
     (case db_run db
         ([0x0A] @ js ''        CREATE TABLE IF NOT EXISTS patient ('' @
          [0x0A] @ js ''          patientid   INTEGER PRIMARY KEY AUTOINCREMENT,'' @
          [0x0A] @ js ''          name        VARCHAR(100) NOT NULL,'' @
          [0x0A] @ js ''          dateOfBirth DATETIME'' @
          [0x0A] @ js ''        );'' @
          [0x0A] @ js ''      '') [] s of
        (Inl e, s') \<Rightarrow> (Inl e, s')
      | (Inr r, s') \<Rightarrow> (Inr (), s')) \<and>
   (\<exists>d1. bootstrap (sqlite_engine other) d = (Inr (), d1) \<and>
         bootstrap (sqlite_engine other) d1 = (Inr (), d1) \<and>
         ensureTableExists (sqlite_engine other) d = (Inr (), d1) \<and>
         ensureTableExists (sqlite_engine other) d1 = (Inr (), d1) \<and>
         map_of (tables d1) (js ''patient'') \<noteq> None \<and>
         (map_of (tables d) (js ''patient'') \<noteq> None \<longrightarrow> d1 = d) \<and>
         (length (filter (\<lambda>t. fst t = js ''patient'') (tables d)) \<le> 1 \<longrightarrow>
            length (filter (\<lambda>t. fst t = js ''patient'') (tables d1)) = 1) \<and>
         runSelect (sqlite_engine other) sql d = db_all (sqlite_engine other) sql d1 \<and>
         runInsert (sqlite_engine other) sql d = runInsert_v1 (sqlite_engine other) sql d1)"
proof (intro conjI)
  show "bootstrap db s =
     (case db_run db
         ([0x0A] @ js ''          CREATE TABLE IF NOT EXISTS patient ('' @
          [0x0A] @ js ''            patientid   INTEGER PRIMARY KEY AUTOINCREMENT,'' @
          [0x0A] @ js ''            name        VARCHAR(100) NOT NULL,'' @
          [0x0A] @ js ''            dateOfBirth DATETIME'' @
          [0x0A] @ js ''          );'' @
          [0x0A] @ js ''        '') [] s of
        (Inl e, s') \<Rightarrow> (Inl e, s')
      | (Inr r, s') \<Rightarrow> (Inr (), s'))"
    unfolding bootstrap_def bootstrap_sql_text by (rule refl)
  show "ensureTableExists db s =
     (case db_run db
         ([0x0A] @ js ''        CREATE TABLE IF NOT EXISTS patient ('' @
          [0x0A] @ js ''          patientid   INTEGER PRIMARY KEY AUTOINCREMENT,'' @
          [0x0A] @ js ''          name        VARCHAR(100) NOT NULL,'' @
          [0x0A] @ js ''          dateOfBirth DATETIME'' @
          [0x0A] @ js ''        );'' @
          [0x0A] @ js ''      '') [] s of
        (Inl e, s') \<Rightarrow> (Inl e, s')
      | (Inr r, s') \<Rightarrow> (Inr (), s'))"
    unfolding ensureTableExists_def ensureTableExists_sql_text by (rule refl)
  show "\<exists>d1. bootstrap (sqlite_engine other) d = (Inr (), d1) \<and>
         bootstrap (sqlite_engine other) d1 = (Inr (), d1) \<and>
         ensureTableExists (sqlite_engine other) d = (Inr (), d1) \<and>
         ensureTableExists (sqlite_engine other) d1 = (Inr (), d1) \<and>
         map_of (tables d1) (js ''patient'') \<noteq> None \<and>
         (map_of (tables d) (js ''patient'') \<noteq> None \<longrightarrow> d1 = d) \<and>
         (length (filter (\<lambda>t. fst t = js ''patient'') (tables d)) \<le> 1 \<longrightarrow>
            length (filter (\<lambda>t. fst t = js ''patient'') (tables d1)) = 1) \<and>
         runSelect (sqlite_engine other) sql d = db_all (sqlite_engine other) sql d1 \<and>
         runInsert (sqlite_engine other) sql d = runInsert_v1 (sqlite_engine other) sql d1"
  proof (rule exI [of _ "create_if_absent d"], intro conjI)
    show "bootstrap (sqlite_engine other) d = (Inr (), create_if_absent d)"
      by (rule sqlite_bootstrap)
    show "bootstrap (sqlite_engine other) (create_if_absent d) = (Inr (), create_if_absent d)"
      by (simp add: sqlite_bootstrap create_if_absent_idem)
    show "ensureTableExists (sqlite_engine other) d = (Inr (), create_if_absent d)"
      by (rule sqlite_ensureTableExists)
    show "ensureTableExists (sqlite_engine other) (create_if_absent d) =
            (Inr (), create_if_absent d)"
      by (simp add: sqlite_ensureTableExists create_if_absent_idem)
    show "map_of (tables (create_if_absent d)) (js ''patient'') \<noteq> None"
      by (rule create_if_absent_has_table)
    show "map_of (tables d) (js ''patient'') \<noteq> None \<longrightarrow> create_if_absent d = d"
      by (rule impI) (rule create_if_absent_present)
    show "length (filter (\<lambda>t. fst t = js ''patient'') (tables d)) \<le> 1 \<longrightarrow>
              length (filter (\<lambda>t. fst t = js ''patient'') (tables (create_if_absent d))) = 1"
      by (rule impI) (rule create_if_absent_one_table)
    show "runSelect (sqlite_engine other) sql d =
            db_all (sqlite_engine other) sql (create_if_absent d)"
      by (rule adapters_pass_on [OF sqlite_ensureTableExists, THEN conjunct1])
    show "runInsert (sqlite_engine other) sql d =
            runInsert_v1 (sqlite_engine other) sql (create_if_absent d)"
      by (rule adapters_pass_on [OF sqlite_ensureTableExists, THEN conjunct2])
  qed
qed

theorem create_table_is_idempotent_witness:
  "bootstrap (sqlite_engine no_engine) empty_store =
     (Inr (), empty_store\<lparr>tables := [(js ''patient'', [])]\<rparr>) \<and>
   bootstrap (sqlite_engine no_engine) (empty_store\<lparr>tables := [(js ''patient'', [])]\<rparr>) =
     (Inr (), empty_store\<lparr>tables := [(js ''patient'', [])]\<rparr>) \<and>
   ensureTableExists (sqlite_engine no_engine)
     (empty_store\<lparr>tables := [(js ''patient'', [])]\<rparr>) =
     (Inr (), empty_store\<lparr>tables := [(js ''patient'', [])]\<rparr>) \<and>
   length (filter (\<lambda>t. fst t = js ''patient'')
     (tables (empty_store\<lparr>tables := [(js ''patient'', [])]\<rparr>))) = 1"
proof -
  have b: "bootstrap (sqlite_engine no_engine) empty_store =
     (Inr (), empty_store\<lparr>tables := [(js ''patient'', [])]\<rparr>)"
    by code_simp
  have l: "length (filter (\<lambda>t. fst t = js ''patient'') (tables empty_store)) \<le> 1"
    by code_simp
  from create_table_is_idempotent
         [where other = no_engine and d = empty_store and sql = "[]" and db = no_engine
            and s = empty_store, THEN conjunct2, THEN conjunct2]
  obtain d1 where
    al: "bootstrap (sqlite_engine no_engine) empty_store = (Inr (), d1) \<and>
         bootstrap (sqlite_engine no_engine) d1 = (Inr (), d1) \<and>
         ensureTableExists (sqlite_engine no_engine) empty_store = (Inr (), d1) \<and>
         ensureTableExists (sqlite_engine no_engine) d1 = (Inr (), d1) \<and>
         map_of (tables d1) (js ''patient'') \<noteq> None \<and>
         (map_of (tables empty_store) (js ''patient'') \<noteq> None \<longrightarrow> d1 = empty_store) \<and>
         (length (filter (\<lambda>t. fst t = js ''patient'') (tables empty_store)) \<le> 1 \<longrightarrow>
            length (filter (\<lambda>t. fst t = js ''patient'') (tables d1)) = 1) \<and>
         runSelect (sqlite_engine no_engine) [] empty_store =
           db_all (sqlite_engine no_engine) [] d1 \<and>
         runInsert (sqlite_engine no_engine) [] empty_store =
           runInsert_v1 (sqlite_engine no_engine) [] d1"
    by (rule exE)
  note d = al [THEN conjunct1]
  note b2 = al [THEN conjunct2, THEN conjunct1]
  note e2 = al [THEN conjunct2, THEN conjunct2, THEN conjunct2, THEN conjunct1]
  note c = al [THEN conjunct2, THEN conjunct2, THEN conjunct2, THEN conjunct2, THEN conjunct2,
               THEN conjunct2, THEN conjunct1]
  from d b have eq: "d1 = empty_store\<lparr>tables := [(js ''patient'', [])]\<rparr>" by simp
  from c l have c': "length (filter (\<lambda>t. fst t = js ''patient'') (tables d1)) = 1" by (rule mp)
  show ?thesis
    using b b2 e2 c' unfolding eq by (intro conjI)
qed
















end
